(* ===== verification/Prelude.thy ===== *)
theory Prelude
  imports Complex_Main "HOL-Library.Word"
begin

text \<open>
  Shared vocabulary of the pixelquilt development (src/src/main.js).
  JavaScript numbers are modelled as \<open>real\<close>: every quantity of main.js
  (strip count, shuffle depth, touch deltas, image sizes, export sizes) is a
  finite double, and the values main.js produces stay far below the range where
  double rounding would matter, except for \<open>Math.pow\<close> with a fractional exponent,
  which is modelled by the exact \<open>powr\<close>.  The JavaScript primitives main.js
  calls are given their ECMAScript meaning on finite numbers:
  \<^item> \<open>Math.min\<close>, \<open>Math.max\<close> are \<open>min\<close>, \<open>max\<close>;
  \<^item> \<open>Math.sign\<close> is \<open>sgn\<close>;
  \<^item> \<open>Math.round\<close> is \<open>round\<close> (\<open>\<lfloor>x + 1/2\<rfloor>\<close>: ties go towards \<open>+\<infinity>\<close>, as in ECMAScript);
  \<^item> \<open>String.prototype.startsWith\<close> is \<open>starts_with\<close>;
  \<^item> the WebIDL conversion of a number to \<open>unsigned long\<close> (used when a canvas's
    \<open>width\<close> or \<open>height\<close> is assigned) is \<open>to_unsigned_long\<close>, a 32-bit word.
  The theory also holds the generic lemmas on clamping, rounding and integrality
  that the component theories share, and the named collections that carry them.
\<close>

named_theorems js_simps "evaluation rules of the JavaScript primitives of the model"
named_theorems grid_intros "closure rules of the integrality invariants"
named_theorems frame_simps "fields an operation of the model leaves unchanged"

type_synonym ms = int \<comment> \<open>a \<open>Date.now()\<close> time stamp, in milliseconds\<close>
type_synonym js_number = real

section \<open>JavaScript primitives\<close>

definition js_round :: "real \<Rightarrow> real" where
  "js_round x = of_int (round x)"

definition starts_with :: "string \<Rightarrow> string \<Rightarrow> bool" where
  "starts_with s p \<longleftrightarrow> take (length p) s = p"

definition js_integral :: "real \<Rightarrow> bool" where
  "js_integral x \<longleftrightarrow> of_int \<lfloor>x\<rfloor> = x"

definition to_unsigned_long :: "real \<Rightarrow> 32 word" where
  "to_unsigned_long x = word_of_int (if 0 \<le> x then \<lfloor>x\<rfloor> else \<lceil>x\<rceil>)"

text \<open>Removing the \<open>i\<close>-th element of a queue of pending continuations.\<close>

definition remove_at :: "nat \<Rightarrow> 'a list \<Rightarrow> 'a list" where
  "remove_at i xs = take i xs @ drop (Suc i) xs"

section \<open>Generic lemmas\<close>

lemma length_remove_at [simp]: "i < length xs \<Longrightarrow> length (remove_at i xs) = length xs - 1"
  by (simp add: remove_at_def)

lemma remove_at_0 [simp]: "remove_at 0 (x # xs) = xs"
  by (simp add: remove_at_def)


lemma js_integral_iff_Ints [js_simps]: "js_integral x \<longleftrightarrow> x \<in> \<int>"
  by (metis Ints_of_int floor_of_int js_integral_def Ints_cases)

lemma starts_with_Cons [js_simps]:
  "starts_with (c # s) (d # p) \<longleftrightarrow> c = d \<and> starts_with s p"
  by (simp add: starts_with_def)

lemma starts_with_Nil [js_simps]:
  "starts_with s []" "starts_with [] (d # p) = False"
  by (simp_all add: starts_with_def)

subsection \<open>Clamping\<close>

lemma clamp_bounds:
  fixes lo hi x :: "'a::linorder"
  assumes "lo \<le> hi"
  shows "lo \<le> max lo (min hi x)" and "max lo (min hi x) \<le> hi"
  using assms by (auto simp: max_def min_def)

lemma min_step_up_bounds:
  fixes lo hi x d :: real
  assumes "lo \<le> x" "x \<le> hi" "0 \<le> d"
  shows "lo \<le> min hi (x + d)" and "min hi (x + d) \<le> hi"
  using assms by simp_all

lemma max_step_down_bounds:
  fixes lo hi x d :: real
  assumes "lo \<le> x" "x \<le> hi" "0 \<le> d"
  shows "lo \<le> max lo (x - d)" and "max lo (x - d) \<le> hi"
  using assms by simp_all

subsection \<open>Integrality\<close>

lemma Ints_min [grid_intros]: "x \<in> \<int> \<Longrightarrow> y \<in> \<int> \<Longrightarrow> min x y \<in> \<int>"
  by (simp add: min_def)

lemma Ints_max [grid_intros]: "x \<in> \<int> \<Longrightarrow> y \<in> \<int> \<Longrightarrow> max x y \<in> \<int>"
  by (simp add: max_def)

lemma sgn_Ints [grid_intros]: "sgn (x::real) \<in> \<int>"
  by (simp add: sgn_real_def)

lemma eighths_min [grid_intros]:
  "8 * x \<in> \<int> \<Longrightarrow> 8 * y \<in> \<int> \<Longrightarrow> 8 * min x (y::real) \<in> \<int>"
  by (simp add: min_def)

lemma eighths_max [grid_intros]:
  "8 * x \<in> \<int> \<Longrightarrow> 8 * y \<in> \<int> \<Longrightarrow> 8 * max x (y::real) \<in> \<int>"
  by (simp add: max_def)

lemma eighths_add_Ints [grid_intros]:
  "8 * x \<in> \<int> \<Longrightarrow> y \<in> \<int> \<Longrightarrow> 8 * (x + y / 8 :: real) \<in> \<int>"
  by (simp add: distrib_left)

lemma eighths_of_Ints [grid_intros]: "x \<in> \<int> \<Longrightarrow> 8 * (x::real) \<in> \<int>"
  by (metis Ints_mult Ints_numeral)

subsection \<open>Rounding\<close>

lemma js_round_error: "\<bar>js_round x - x\<bar> \<le> 1 / 2"
  using of_int_round_le [of x] of_int_round_ge [of x]
  unfolding js_round_def abs_le_iff by linarith

lemma js_round_mono: "x \<le> y \<Longrightarrow> js_round x \<le> js_round y"
  by (simp add: js_round_def round_mono)

lemma js_round_Ints [grid_intros]: "js_round x \<in> \<int>"
  by (simp add: js_round_def)

lemma js_round_of_int [js_simps]: "js_round (of_int n) = of_int n"
  by (simp add: js_round_def)

lemma js_round_le_int: "x \<le> of_int n \<Longrightarrow> js_round x \<le> of_int n"
  using js_round_mono js_round_of_int by metis

lemma js_round_ge_int: "of_int n \<le> x \<Longrightarrow> of_int n \<le> js_round x"
  using js_round_mono js_round_of_int by metis

lemma js_round_nonneg: "0 \<le> x \<Longrightarrow> 0 \<le> js_round x"
  using js_round_ge_int [of 0 x] by simp

lemma js_round_within:
  assumes "0 \<le> x" "x \<le> m" "m \<in> \<int>"
  shows "0 \<le> js_round x \<and> js_round x \<le> m"
  using assms(3) js_round_nonneg [OF assms(1)] js_round_le_int [of x] assms(2)
  by (auto elim: Ints_cases)

subsection \<open>Ratios\<close>

lemma div_ratio_bounds:
  fixes a b m :: real
  assumes "0 \<le> a" "a \<le> b" "0 \<le> m"
  shows "0 \<le> m / (b / a)" and "m / (b / a) \<le> m"
proof -
  show "0 \<le> m / (b / a)" using assms by simp
  show "m / (b / a) \<le> m"
  proof (cases "a = 0")
    case True
    then show ?thesis using assms by simp
  next
    case False
    then have "m / (b / a) = m * (a / b)" by simp
    also have "\<dots> \<le> m * 1"
      using assms False by (intro mult_left_mono) (simp_all add: divide_le_eq_1)
    finally show ?thesis by simp
  qed
qed

lemma mul_ratio_bounds:
  fixes a b m :: real
  assumes "0 \<le> a" "a \<le> b" "0 \<le> m"
  shows "0 \<le> m * (a / b)" and "m * (a / b) \<le> m"
proof -
  show "0 \<le> m * (a / b)" using assms by simp
  have "a / b \<le> 1" using assms by (cases "b = 0") (simp_all add: divide_le_eq_1)
  from mult_left_mono [OF this assms(3)] show "m * (a / b) \<le> m" by simp
qed

subsection \<open>Canvas sizes\<close>

lemma unat_to_unsigned_long:
  assumes "0 \<le> x" "x < 2 ^ 32"
  shows "unat (to_unsigned_long x) = nat \<lfloor>x\<rfloor>"
proof -
  have "0 \<le> \<lfloor>x\<rfloor>" using assms(1) by simp
  moreover have "\<lfloor>x\<rfloor> < 2 ^ 32"
    using assms(2) floor_less_iff [of x "2 ^ 32"] by simp
  ultimately show ?thesis
    using assms(1)
    by (simp add: to_unsigned_long_def unat_eq_nat_uint uint_word_of_int)
qed

lemma unat_to_unsigned_long_le:
  assumes "0 \<le> x" "x \<le> 4096"
  shows "unat (to_unsigned_long x) \<le> 4096"
proof -
  have "unat (to_unsigned_long x) = nat \<lfloor>x\<rfloor>"
    using assms by (intro unat_to_unsigned_long) simp_all
  also have "\<dots> \<le> 4096" using assms(2) by linarith
  finally show ?thesis .
qed

text \<open>Two values of \<open>Math.pow\<close> at a fractional exponent, for the export examples.\<close>

lemma two_powr_five_halves: "(2::real) powr (5 / 2) = 4 * sqrt 2"
proof -
  have "(2::real) powr (5 / 2) = 2 powr (2 + 1 / 2)" by simp
  also have "\<dots> = 2 powr 2 * 2 powr (1 / 2)" by (rule powr_add)
  also have "\<dots> = 4 * sqrt 2" by (simp add: powr_half_sqrt)
  finally show ?thesis .
qed

lemma floor_400_sqrt2: "\<lfloor>400 * sqrt (2::real)\<rfloor> = 565"
proof -
  have e: "400 * sqrt (2::real) = sqrt (400\<^sup>2 * 2)"
    by (simp only: real_sqrt_mult real_sqrt_abs)
  have "sqrt (565\<^sup>2) \<le> sqrt ((400::real)\<^sup>2 * 2)" by (rule real_sqrt_le_mono) simp
  then have lo: "565 \<le> 400 * sqrt (2::real)" by (simp only: e real_sqrt_abs)
  have "sqrt ((400::real)\<^sup>2 * 2) < sqrt (566\<^sup>2)" by (simp only: real_sqrt_less_iff) simp
  then have hi: "400 * sqrt (2::real) < 566" by (simp only: e real_sqrt_abs)
  from lo hi show ?thesis by linarith
qed
end
