(* ===== verification/Params.thy ===== *)
theory Params
  imports Prelude
begin

text \<open>
  Parameter State of main.js: the two tunable numbers \<open>nStrips\<close> and \<open>nShuffles\<close>
  (main.js lines 40--41) with their bounds (lines 5--8), the four arrow-key updates
  of the \<open>keydown\<close> handler (lines 153--167) and the parameter update of the swipe
  callback (lines 181--187).  The calls that push a new value to the display
  renderer are composed around these updates in theory \<open>Session\<close>.
  The section \<open>Abstract parameter semantics\<close> states the spec's contract
  (\<open>newValue = clamp(current + signedStep, min, max)\<close>) and proves that the code,
  which clamps on one side only for the arrow keys, implements it.
\<close>

section \<open>Constants and state\<close>

definition MIN_N_STRIPS :: js_number where "MIN_N_STRIPS = 1"
definition MAX_N_STRIPS :: js_number where "MAX_N_STRIPS = 1920"
definition MIN_N_SHUFFLES :: js_number where "MIN_N_SHUFFLES = 1"
definition MAX_N_SHUFFLES :: js_number where "MAX_N_SHUFFLES = 32"

lemmas param_bound_defs [js_simps] =
  MIN_N_STRIPS_def MAX_N_STRIPS_def MIN_N_SHUFFLES_def MAX_N_SHUFFLES_def

record params =
  nStrips :: js_number
  nShuffles :: js_number

definition init_params :: params where
  "init_params = \<lparr>nStrips = 32, nShuffles = MIN_N_SHUFFLES\<rparr>"

section \<open>Operations\<close>

text \<open>The arrow-key cases of the \<open>switch (e.key)\<close> of the \<open>keydown\<close> handler.\<close>

definition key_params :: "string \<Rightarrow> 'a params_scheme \<Rightarrow> 'a params_scheme" where
  "key_params key p =
     (if key = ''ArrowUp'' then p\<lparr>nStrips := min MAX_N_STRIPS (nStrips p + 1)\<rparr>
      else if key = ''ArrowDown'' then p\<lparr>nStrips := max MIN_N_STRIPS (nStrips p - 1)\<rparr>
      else if key = ''ArrowRight'' then p\<lparr>nShuffles := min MAX_N_SHUFFLES (nShuffles p + 1)\<rparr>
      else if key = ''ArrowLeft'' then p\<lparr>nShuffles := max MIN_N_SHUFFLES (nShuffles p - 1)\<rparr>
      else p)"

text \<open>The parameter update of the \<open>handleTouch\<close> callback \<open>(direction, diff)\<close>.\<close>

definition swipe_params :: "string \<Rightarrow> js_number \<Rightarrow> 'a params_scheme \<Rightarrow> 'a params_scheme" where
  "swipe_params direction diff p =
     (if direction = ''x''
      then p\<lparr>nShuffles := max MIN_N_SHUFFLES (min MAX_N_SHUFFLES (nShuffles p + sgn diff / 8))\<rparr>
      else p\<lparr>nStrips := max MIN_N_STRIPS (min MAX_N_STRIPS (nStrips p - sgn diff))\<rparr>)"

text \<open>The inputs that change parameters, and a run over a list of them.\<close>

datatype param_input = KeyIn string | SwipeIn string js_number

primrec param_step :: "param_input \<Rightarrow> 'a params_scheme \<Rightarrow> 'a params_scheme" where
  "param_step (KeyIn key) p = key_params key p"
| "param_step (SwipeIn direction diff) p = swipe_params direction diff p"

definition run_params :: "param_input list \<Rightarrow> 'a params_scheme \<Rightarrow> 'a params_scheme" where
  "run_params ins p = fold param_step ins p"

section \<open>Invariants\<close>

definition params_ok :: "'a params_scheme \<Rightarrow> bool" where
  "params_ok p \<longleftrightarrow>
     MIN_N_STRIPS \<le> nStrips p \<and> nStrips p \<le> MAX_N_STRIPS \<and>
     MIN_N_SHUFFLES \<le> nShuffles p \<and> nShuffles p \<le> MAX_N_SHUFFLES"

text \<open>\<open>nStrips\<close> is a whole number and \<open>nShuffles\<close> a multiple of \<open>1/8\<close>.\<close>

definition params_grid :: "'a params_scheme \<Rightarrow> bool" where
  "params_grid p \<longleftrightarrow> js_integral (nStrips p) \<and> js_integral (8 * nShuffles p)"

section \<open>Abstract parameter semantics\<close>

text \<open>
  The spec's Parameter State: \<open>increment(param, step)\<close> and \<open>decrement\<close> set
  \<open>clamp(current + signedStep, min, max)\<close>; the Gesture/Input Router table gives the
  signed step of each input.
\<close>

datatype param = StripCount | ShuffleDepth

definition clamp :: "js_number \<Rightarrow> js_number \<Rightarrow> js_number \<Rightarrow> js_number" where
  "clamp lo hi x = max lo (min hi x)"

primrec adjust :: "param \<Rightarrow> js_number \<Rightarrow> 'a params_scheme \<Rightarrow> 'a params_scheme" where
  "adjust StripCount d p = p\<lparr>nStrips := clamp MIN_N_STRIPS MAX_N_STRIPS (nStrips p + d)\<rparr>"
| "adjust ShuffleDepth d p =
     p\<lparr>nShuffles := clamp MIN_N_SHUFFLES MAX_N_SHUFFLES (nShuffles p + d)\<rparr>"

primrec spec_step :: "param_input \<Rightarrow> 'a params_scheme \<Rightarrow> 'a params_scheme" where
  "spec_step (KeyIn key) p =
     (if key = ''ArrowUp'' then adjust StripCount 1 p
      else if key = ''ArrowDown'' then adjust StripCount (-1) p
      else if key = ''ArrowRight'' then adjust ShuffleDepth 1 p
      else if key = ''ArrowLeft'' then adjust ShuffleDepth (-1) p
      else p)"
| "spec_step (SwipeIn direction diff) p =
     (if direction = ''x'' then adjust ShuffleDepth (sgn diff / 8) p
      else adjust StripCount (- sgn diff) p)"

definition spec_run :: "param_input list \<Rightarrow> 'a params_scheme \<Rightarrow> 'a params_scheme" where
  "spec_run ins p = fold spec_step ins p"

section \<open>Properties\<close>

lemma params_ok_init: "params_ok init_params"
  by (simp add: params_ok_def init_params_def param_bound_defs)

lemma key_params_ok: "params_ok p \<Longrightarrow> params_ok (key_params key p)"
  by (auto simp: params_ok_def key_params_def param_bound_defs)

lemma swipe_params_ok: "params_ok p \<Longrightarrow> params_ok (swipe_params direction diff p)"
  by (simp add: params_ok_def swipe_params_def param_bound_defs)

lemma key_params_grid: "params_grid p \<Longrightarrow> params_grid (key_params key p)"
  unfolding params_grid_def key_params_def js_integral_iff_Ints param_bound_defs
  by (simp add: Ints_min Ints_max eighths_min eighths_max distrib_left)

lemma swipe_params_grid: "params_grid p \<Longrightarrow> params_grid (swipe_params direction diff p)"
  unfolding params_grid_def swipe_params_def js_integral_iff_Ints param_bound_defs
  by (simp add: Ints_min Ints_max eighths_min eighths_max eighths_add_Ints sgn_Ints)

lemma param_step_ok: "params_ok p \<Longrightarrow> params_ok (param_step i p)"
  by (cases i) (simp_all add: key_params_ok swipe_params_ok)

lemma run_params_Cons [simp]: "run_params (i # ins) p = run_params ins (param_step i p)"
  by (simp add: run_params_def)

lemma run_params_Nil [simp]: "run_params [] p = p"
  by (simp add: run_params_def)

lemma param_step_refines: "params_ok p \<Longrightarrow> param_step i p = spec_step i p"
  by (cases i) (auto simp: params_ok_def key_params_def swipe_params_def clamp_def
      param_bound_defs)

lemma run_params_refines: "params_ok p \<Longrightarrow> run_params ins p = spec_run ins p"
proof (induction ins arbitrary: p)
  case Nil
  then show ?case by (simp add: spec_run_def)
next
  case (Cons i ins)
  then have "run_params ins (param_step i p) = spec_run ins (param_step i p)"
    by (simp add: param_step_ok)
  with Cons.prems show ?case by (simp add: spec_run_def param_step_refines)
qed

text \<open>
  C2. The arrow keys clamp on one side only (\<open>Math.min(MAX, n + 1)\<close>,
  \<open>Math.max(MIN, n - 1)\<close>); from the initial state, every run of keys and swipes
  nevertheless ends where the spec's two-sided \<open>clamp(current + signedStep, min, max)\<close>
  ends.
\<close>

theorem params_refine_clamp_spec: "run_params ins init_params = spec_run ins init_params"
  using params_ok_init by (rule run_params_refines)

lemma param_step_cong:
  "nStrips p = nStrips q \<Longrightarrow> nShuffles p = nShuffles q \<Longrightarrow>
   nStrips (param_step i p) = nStrips (param_step i q) \<and>
   nShuffles (param_step i p) = nShuffles (param_step i q)"
  by (cases i) (simp_all add: key_params_def swipe_params_def)

lemma run_params_cong:
  "nStrips p = nStrips q \<Longrightarrow> nShuffles p = nShuffles q \<Longrightarrow>
   nStrips (run_params ins p) = nStrips (run_params ins q) \<and>
   nShuffles (run_params ins p) = nShuffles (run_params ins q)"
proof (induction ins arbitrary: p q)
  case Nil
  then show ?case by simp
next
  case (Cons i ins)
  from param_step_cong [OF Cons.prems] show ?case by (simp add: Cons.IH)
qed

lemma run_params_append: "run_params (xs @ ys) p = run_params ys (run_params xs p)"
  by (simp add: run_params_def)

lemma key_params_other:
  "\<not> (key = ''ArrowUp'' \<or> key = ''ArrowDown'' \<or> key = ''ArrowRight'' \<or> key = ''ArrowLeft'') \<Longrightarrow>
   key_params key s = s"
  by (simp add: key_params_def)


end
