(* ===== verification/Browser.thy ===== *)
theory Browser
  imports Prelude
begin

text \<open>
  The environment main.js runs in, reduced to what main.js observes or changes:
  images and video elements with their sizes, camera streams by identity, the export
  canvas, files dropped on the page, and the observable state of a ShaderPad
  renderer (its two uniforms, its input texture, whether its render loop runs and
  which per-frame callback it calls).  None of this is code of the repository: the
  renderer is the external ShaderPad library, the rest is the browser.  The
  operations are the calls main.js makes (\<open>initializeUniform\<close>/\<open>initializeTexture\<close>,
  \<open>updateUniforms\<close>, \<open>updateTextures\<close>, \<open>play\<close>, \<open>pause\<close>, \<open>step\<close>), each given the
  effect the spec's "Shader renderer library boundary" describes.
\<close>

section \<open>Media and DOM objects\<close>

text \<open>Image and video sizes are DOM \<open>unsigned long\<close> attributes: whole and non-negative.\<close>

record image =
  naturalWidth :: nat
  naturalHeight :: nat

text \<open>
  A \<open><video>\<close> element created by \<open>getWebcamStream\<close>, identified by a number; its
  \<open>srcObject\<close> is the camera stream it plays (the stream gets the element's number),
  and its size is known once its metadata has loaded.
\<close>

record video =
  video_id :: nat
  srcObject :: "nat option"
  videoWidth :: nat
  videoHeight :: nat

text \<open>A texture source handed to a renderer: a video element (by number) or an image.\<close>

datatype source = VideoSource nat | ImageSource image

text \<open>A frame drawn on a canvas: its size and what the shader was drawn with.\<close>

record frame =
  frame_width :: "32 word"
  frame_height :: "32 word"
  frame_nShuffles :: js_number
  frame_nStrips :: js_number
  frame_source :: source

record canvas =
  canvas_width :: "32 word"
  canvas_height :: "32 word"
  canvas_attached :: bool
  canvas_frame :: "frame option"

record dropped_file =
  file_type :: string
  file_image :: "image option" \<comment> \<open>the decoded picture, \<open>None\<close> when decoding fails\<close>

datatype facing_mode = User | Environment \<comment> \<open>the strings \<open>'user'\<close>, \<open>'environment'\<close>\<close>

text \<open>How a camera request (\<open>getUserMedia\<close> and the \<open>loadedmetadata\<close> event) settles.\<close>

datatype camera_result = CameraStream nat nat | CameraDenied

datatype js_error = CameraAccessError | NotFoundError | SaveError

section \<open>The ShaderPad interface\<close>

datatype frame_callback = NoCallback | RefreshInputStream

record shader =
  u_nShuffles :: js_number
  u_nStrips :: js_number
  u_inputStream :: source
  playing :: bool
  on_frame :: frame_callback

definition sp_initialize :: "js_number \<Rightarrow> js_number \<Rightarrow> source \<Rightarrow> shader" where
  "sp_initialize shuffle_depth strip_count src =
     \<lparr>u_nShuffles = shuffle_depth, u_nStrips = strip_count, u_inputStream = src,
      playing = False, on_frame = NoCallback\<rparr>"

definition sp_play :: "frame_callback \<Rightarrow> shader \<Rightarrow> shader" where
  "sp_play cb sh = sh\<lparr>playing := True, on_frame := cb\<rparr>"

definition sp_pause :: "shader \<Rightarrow> shader" where
  "sp_pause sh = sh\<lparr>playing := False\<rparr>"

definition sp_set_texture :: "source \<Rightarrow> shader \<Rightarrow> shader" where
  "sp_set_texture src sh = sh\<lparr>u_inputStream := src\<rparr>"

text \<open>\<open>step(0)\<close>: one render pass of the shader onto its canvas.\<close>

definition sp_step :: "shader \<Rightarrow> canvas \<Rightarrow> canvas" where
  "sp_step sh c =
     c\<lparr>canvas_frame := Some \<lparr>frame_width = canvas_width c, frame_height = canvas_height c,
        frame_nShuffles = u_nShuffles sh, frame_nStrips = u_nStrips sh,
        frame_source = u_inputStream sh\<rparr>\<rparr>"

text \<open>Assigning \<open>width\<close> and \<open>height\<close> resizes the canvas and clears what it showed.\<close>

definition resize_canvas :: "js_number \<Rightarrow> js_number \<Rightarrow> canvas \<Rightarrow> canvas" where
  "resize_canvas w h c =
     c\<lparr>canvas_width := to_unsigned_long w, canvas_height := to_unsigned_long h,
       canvas_frame := None\<rparr>"

lemmas shader_defs [js_simps] = sp_play_def sp_pause_def sp_set_texture_def

end
