(* ===== verification/AppState.thy ===== *)
theory AppState
  imports Params Browser
begin

text \<open>
  The state \<open>main()\<close> keeps in its closure (src/src/main.js), as one record that extends
  the Parameter State: every handler of main.js reads and writes these variables, so
  every operation of the components below takes and returns a \<open>session\<close>.
  The fields after \<open>lastTapTime\<close> are not variables of main.js but the parts of the
  environment the handlers change or wait for: which camera streams are live, the
  video elements in the document, the asynchronous continuations that are pending
  (a \<open>switchCamera\<close> awaiting its camera, an image being read and decoded, the
  export's 8 ms timer, the export's save), what was handed to \<open>save\<close>, and the errors
  logged to the console or left uncaught.
\<close>

text \<open>The value of the variable \<open>play\<close>: the function defined at lines 200--204, or
  the one \<open>handleImageFile\<close> assigns (line 71).\<close>

datatype play_kind = PlayRefreshingVideo | PlayImage

record session = params +
  currentFacingMode :: facing_mode
  videoInput :: video
  imageInput :: "image option"
  displayShader :: shader
  exportShader :: shader
  exportCanvas :: canvas
  play :: play_kind
  lastTapTime :: ms
  app_ready :: bool
  body_flipped :: bool
  live_streams :: "nat set"
  body_videos :: "nat set"
  next_media_id :: nat
  pending_switches :: "facing_mode list"
  pending_loads :: "dropped_file list"
  pending_timers :: nat
  pending_saves :: "frame option list"
  saved :: "(string \<times> frame option) list"
  console_errors :: "js_error list"
  uncaught_errors :: "js_error list"

text \<open>The page before \<open>main\<close> runs: no stream, nothing pending.  The closure variables
  get their values in \<open>main_init\<close> before any handler can run, so the values given here
  are never observed.\<close>

definition page_before_main :: session where
  "page_before_main =
     \<lparr>nStrips = 0, nShuffles = 0, currentFacingMode = User,
      videoInput = \<lparr>video_id = 0, srcObject = None, videoWidth = 0, videoHeight = 0\<rparr>,
      imageInput = None,
      displayShader = sp_initialize 0 0 (VideoSource 0),
      exportShader = sp_initialize 0 0 (VideoSource 0),
      exportCanvas = \<lparr>canvas_width = 300, canvas_height = 150, canvas_attached = False,
                      canvas_frame = None\<rparr>,
      play = PlayRefreshingVideo, lastTapTime = 0, app_ready = False, body_flipped = False,
      live_streams = {}, body_videos = {}, next_media_id = 0,
      pending_switches = [], pending_loads = [], pending_timers = 0, pending_saves = [],
      saved = [], console_errors = [], uncaught_errors = []\<rparr>"

section \<open>Reading the input source\<close>

text \<open>\<open>imageInput ?? videoInput\<close>, as a texture source.\<close>

definition current_source :: "session \<Rightarrow> source" where
  "current_source s =
     (case imageInput s of Some img \<Rightarrow> ImageSource img
      | None \<Rightarrow> VideoSource (video_id (videoInput s)))"

section \<open>The \<open>play\<close> closure\<close>

text \<open>Calling \<open>play()\<close>: the first value of \<open>play\<close> starts the display loop with a
  callback that re-uploads \<open>videoInput\<close> on every frame (lines 200--204); the value
  \<open>handleImageFile\<close> assigns starts it with no callback (line 71).\<close>

definition run_play :: "session \<Rightarrow> session" where
  "run_play s =
     s\<lparr>displayShader :=
        (case play s of
           PlayRefreshingVideo \<Rightarrow> sp_play RefreshInputStream (displayShader s)
         | PlayImage \<Rightarrow> sp_play NoCallback (displayShader s))\<rparr>"

lemma run_play_frame [frame_simps]:
  "nStrips (run_play s) = nStrips s \<and> nShuffles (run_play s) = nShuffles s \<and>
   u_nStrips (displayShader (run_play s)) = u_nStrips (displayShader s) \<and>
   u_nShuffles (displayShader (run_play s)) = u_nShuffles (displayShader s) \<and>
   exportCanvas (run_play s) = exportCanvas s"
  by (simp add: run_play_def shader_defs split: play_kind.split)

end
