(* ===== verification/Export.thy ===== *)
theory Export
  imports AppState
begin

text \<open>
  Export Orchestrator: \<open>exportHighRes\<close> (src/src/main.js lines 93--128).
  \<open>export_size\<close> is the size computation (lines 95--115) on the shuffle depth and the
  input's native size; \<open>native_size\<close> reads the native size (lines 98--104);
  \<open>exportHighRes\<close> is the synchronous part of the function (pause, resize, push the
  parameters and texture to the export renderer, attach the canvas, arm the 8 ms
  timer); \<open>export_timer_fired\<close> is the timer callback up to its \<open>await\<close> (render one
  frame, hand the canvas to \<open>save\<close>); \<open>export_save_settled\<close> is the rest of the
  callback, run when the save promise settles (remove the canvas, \<open>play()\<close>), or the
  rejection that nothing catches.
\<close>

definition MAX_EXPORT_DIMENSION :: js_number where "MAX_EXPORT_DIMENSION = 4096"

definition export_size :: "js_number \<Rightarrow> js_number \<Rightarrow> js_number \<Rightarrow> js_number \<times> js_number" where
  "export_size nShuffles' nativeWidth nativeHeight =
     (let scaleFactor = 2 powr (nShuffles' + 1);
          exportWidth = nativeWidth * scaleFactor;
          exportHeight = nativeHeight * scaleFactor
      in if exportWidth > MAX_EXPORT_DIMENSION \<or> exportHeight > MAX_EXPORT_DIMENSION
         then (let aspectRatio = exportWidth / exportHeight
               in if exportWidth > exportHeight
                  then (MAX_EXPORT_DIMENSION, js_round (MAX_EXPORT_DIMENSION / aspectRatio))
                  else (js_round (MAX_EXPORT_DIMENSION * aspectRatio), MAX_EXPORT_DIMENSION))
         else (exportWidth, exportHeight))"

definition native_size :: "session \<Rightarrow> js_number \<times> js_number" where
  "native_size s =
     (case imageInput s of
        Some img \<Rightarrow> (real (naturalWidth img), real (naturalHeight img))
      | None \<Rightarrow> (real (videoWidth (videoInput s)), real (videoHeight (videoInput s))))"

text \<open>Lines 94--121: the synchronous part of \<open>exportHighRes\<close>.\<close>

definition exportHighRes :: "session \<Rightarrow> session" where
  "exportHighRes s =
     (case export_size (nShuffles s) (fst (native_size s)) (snd (native_size s)) of
        (exportWidth, exportHeight) \<Rightarrow>
          s\<lparr>displayShader := sp_pause (displayShader s),
            exportCanvas :=
              (resize_canvas exportWidth exportHeight (exportCanvas s))\<lparr>canvas_attached := True\<rparr>,
            exportShader :=
              sp_set_texture (current_source s)
                ((exportShader s)\<lparr>u_nShuffles := nShuffles s, u_nStrips := nStrips s\<rparr>),
            pending_timers := Suc (pending_timers s)\<rparr>)"

text \<open>Lines 122--124: the 8 ms timer fires; one render pass at time 0, then \<open>save\<close>
  is called on what the canvas shows and the callback awaits it.\<close>

definition export_timer_fired :: "session \<Rightarrow> session" where
  "export_timer_fired s =
     (let c = sp_step (exportShader s) (exportCanvas s)
      in s\<lparr>exportCanvas := c, pending_timers := pending_timers s - 1,
           pending_saves := pending_saves s @ [canvas_frame c]\<rparr>)"

text \<open>Lines 124--126: the \<open>i\<close>-th pending save settles.  A rejection propagates out
  of the callback and nothing catches it; on success the canvas is removed from the
  document (\<open>removeChild\<close> throws \<open>NotFoundError\<close> when it is no longer a child) and
  \<open>play()\<close> restarts the display loop.\<close>

definition export_save_settled :: "nat \<Rightarrow> bool \<Rightarrow> session \<Rightarrow> session" where
  "export_save_settled i ok s =
     (let s' = s\<lparr>pending_saves := remove_at i (pending_saves s)\<rparr>
      in if \<not> ok then s'\<lparr>uncaught_errors := uncaught_errors s @ [SaveError]\<rparr>
         else if \<not> canvas_attached (exportCanvas s)
         then s'\<lparr>saved := saved s @ [(''pixelquilt'', pending_saves s ! i)],
                 uncaught_errors := uncaught_errors s @ [NotFoundError]\<rparr>
         else run_play (s'\<lparr>saved := saved s @ [(''pixelquilt'', pending_saves s ! i)],
                         exportCanvas := (exportCanvas s)\<lparr>canvas_attached := False\<rparr>\<rparr>))"

section \<open>The export size\<close>

lemma export_size_cases:
  fixes k nw nh :: real
  defines "W \<equiv> nw * 2 powr (k + 1)" and "H \<equiv> nh * 2 powr (k + 1)"
  shows "export_size k nw nh =
     (if W > MAX_EXPORT_DIMENSION \<or> H > MAX_EXPORT_DIMENSION
      then (if W > H then (MAX_EXPORT_DIMENSION, js_round (MAX_EXPORT_DIMENSION / (W / H)))
            else (js_round (MAX_EXPORT_DIMENSION * (W / H)), MAX_EXPORT_DIMENSION))
      else (W, H))"
  by (simp add: export_size_def Let_def W_def H_def)

text \<open>
  C3. For any non-negative native size and any shuffle depth, both export sizes lie in
  \<open>[0, 4096]\<close>: the clamped side is exactly 4096 and the rounded proportional side
  never exceeds it.
\<close>

theorem export_size_bounds:
  assumes "0 \<le> nw" "0 \<le> nh"
  shows "0 \<le> fst (export_size k nw nh) \<and> fst (export_size k nw nh) \<le> MAX_EXPORT_DIMENSION \<and>
         0 \<le> snd (export_size k nw nh) \<and> snd (export_size k nw nh) \<le> MAX_EXPORT_DIMENSION"
proof -
  define W H where "W = nw * 2 powr (k + 1)" and "H = nh * 2 powr (k + 1)"
  have W: "0 \<le> W" and H: "0 \<le> H" using assms by (simp_all add: W_def H_def)
  have M: "MAX_EXPORT_DIMENSION = 4096" by (simp add: MAX_EXPORT_DIMENSION_def)
  consider (wide) "W > MAX_EXPORT_DIMENSION \<or> H > MAX_EXPORT_DIMENSION" "W > H"
    | (tall) "W > MAX_EXPORT_DIMENSION \<or> H > MAX_EXPORT_DIMENSION" "\<not> W > H"
    | (small) "\<not> (W > MAX_EXPORT_DIMENSION \<or> H > MAX_EXPORT_DIMENSION)"
    by blast
  then show ?thesis
  proof cases
    case wide
    with W H have "0 \<le> MAX_EXPORT_DIMENSION / (W / H)"
      "MAX_EXPORT_DIMENSION / (W / H) \<le> MAX_EXPORT_DIMENSION"
      using div_ratio_bounds [of H W MAX_EXPORT_DIMENSION] by (simp_all add: M)
    with wide show ?thesis
      using js_round_within by (simp add: export_size_cases W_def [symmetric] H_def [symmetric] M)
  next
    case tall
    with W H have "0 \<le> MAX_EXPORT_DIMENSION * (W / H)"
      "MAX_EXPORT_DIMENSION * (W / H) \<le> MAX_EXPORT_DIMENSION"
      using mul_ratio_bounds [of W H MAX_EXPORT_DIMENSION] by (simp_all add: M)
    with tall show ?thesis
      using js_round_within by (simp add: export_size_cases W_def [symmetric] H_def [symmetric] M)
  next
    case small
    with W H show ?thesis by (simp add: export_size_cases W_def [symmetric] H_def [symmetric] M)
  qed
qed

theorem export_size_bounds_witness:
  "0 \<le> (1920::real) \<and> 0 \<le> (1080::real) \<and>
   fst (export_size 3 1920 1080) \<le> MAX_EXPORT_DIMENSION \<and>
   snd (export_size 3 1920 1080) \<le> MAX_EXPORT_DIMENSION"
  using export_size_bounds [of 1920 1080 3] by simp

text \<open>
  C4. When the scaled size exceeds 4096 on either side, the larger side becomes exactly
  4096 and the other is the proportional size rounded to the nearest integer (the
  spec's example: \<open>1920 \<times> 1080\<close> at depth 3 gives \<open>4096 \<times> 2304\<close>).
\<close>

theorem export_size_clamped:
  assumes "0 \<le> nw" "0 \<le> nh"
    and "MAX_EXPORT_DIMENSION < nw * 2 powr (k + 1) \<or> MAX_EXPORT_DIMENSION < nh * 2 powr (k + 1)"
  shows "export_size k nw nh =
           (if nh < nw then (MAX_EXPORT_DIMENSION, js_round (MAX_EXPORT_DIMENSION * nh / nw))
            else (js_round (MAX_EXPORT_DIMENSION * nw / nh), MAX_EXPORT_DIMENSION))"
proof -
  define c where "c = (2::real) powr (k + 1)"
  have c: "0 < c" by (simp add: c_def)
  have ratio: "(nw * c) / (nh * c) = nw / nh" using c by simp
  have less: "nh * c < nw * c \<longleftrightarrow> nh < nw" using c by simp
  have "MAX_EXPORT_DIMENSION / (nw / nh) = MAX_EXPORT_DIMENSION * nh / nw"
    by (cases "nh = 0") simp_all
  then show ?thesis
    using assms ratio less by (simp add: export_size_cases c_def [symmetric])
qed

theorem export_size_clamped_witness: "export_size 3 1920 1080 = (4096, 2304)"
proof -
  have "export_size 3 1920 1080 =
          (MAX_EXPORT_DIMENSION, js_round (MAX_EXPORT_DIMENSION * 1080 / 1920))"
    using export_size_clamped [of 1920 1080 3] by (simp add: MAX_EXPORT_DIMENSION_def)
  then show ?thesis by (simp add: MAX_EXPORT_DIMENSION_def js_round_def round_def)
qed

text \<open>
  C5. When neither scaled side exceeds 4096, the export size is the native size times
  \<open>2 ^ (nShuffles + 1)\<close> (the spec's example: \<open>100 \<times> 100\<close> at depth 1 gives
  \<open>400 \<times> 400\<close>).
\<close>

theorem export_size_unclamped:
  assumes "nw * 2 powr (k + 1) \<le> MAX_EXPORT_DIMENSION"
    and "nh * 2 powr (k + 1) \<le> MAX_EXPORT_DIMENSION"
  shows "export_size k nw nh = (nw * 2 powr (k + 1), nh * 2 powr (k + 1))"
  using assms by (simp add: export_size_cases not_less)

theorem export_size_unclamped_witness: "export_size 1 100 100 = (400, 400)"
  using export_size_unclamped [of 100 1 100] by (simp add: MAX_EXPORT_DIMENSION_def)

section \<open>The export sequence\<close>

lemma native_size_nonneg: "0 \<le> fst (native_size s) \<and> 0 \<le> snd (native_size s)"
  by (simp add: native_size_def split: option.split)

lemma exportHighRes_canvas_bounds:
  "unat (canvas_width (exportCanvas (exportHighRes s))) \<le> 4096 \<and>
   unat (canvas_height (exportCanvas (exportHighRes s))) \<le> 4096"
proof -
  obtain w h where wh: "export_size (nShuffles s) (fst (native_size s)) (snd (native_size s)) = (w, h)"
    by (cases "export_size (nShuffles s) (fst (native_size s)) (snd (native_size s))")
  have "0 \<le> w \<and> w \<le> 4096 \<and> 0 \<le> h \<and> h \<le> 4096"
    using export_size_bounds [of "fst (native_size s)" "snd (native_size s)" "nShuffles s"]
      native_size_nonneg [of s] wh by (simp add: MAX_EXPORT_DIMENSION_def)
  then show ?thesis
    using wh by (simp add: exportHighRes_def resize_canvas_def unat_to_unsigned_long_le)
qed

lemma exportHighRes_frame [frame_simps]:
  "nStrips (exportHighRes s) = nStrips s \<and> nShuffles (exportHighRes s) = nShuffles s \<and>
   u_nStrips (displayShader (exportHighRes s)) = u_nStrips (displayShader s) \<and>
   u_nShuffles (displayShader (exportHighRes s)) = u_nShuffles (displayShader s)"
  by (simp add: exportHighRes_def shader_defs split: prod.split)

lemma export_timer_fired_frame [frame_simps]:
  "nStrips (export_timer_fired s) = nStrips s \<and> nShuffles (export_timer_fired s) = nShuffles s \<and>
   displayShader (export_timer_fired s) = displayShader s \<and>
   canvas_width (exportCanvas (export_timer_fired s)) = canvas_width (exportCanvas s) \<and>
   canvas_height (exportCanvas (export_timer_fired s)) = canvas_height (exportCanvas s)"
  by (simp add: export_timer_fired_def Let_def sp_step_def)

lemma export_save_settled_frame [frame_simps]:
  "nStrips (export_save_settled i ok s) = nStrips s \<and>
   nShuffles (export_save_settled i ok s) = nShuffles s \<and>
   u_nStrips (displayShader (export_save_settled i ok s)) = u_nStrips (displayShader s) \<and>
   u_nShuffles (displayShader (export_save_settled i ok s)) = u_nShuffles (displayShader s) \<and>
   canvas_width (exportCanvas (export_save_settled i ok s)) = canvas_width (exportCanvas s) \<and>
   canvas_height (exportCanvas (export_save_settled i ok s)) = canvas_height (exportCanvas s)"
  by (simp add: export_save_settled_def Let_def run_play_frame)

lemma source_cong:
  "imageInput s' = imageInput s \<Longrightarrow> videoInput s' = videoInput s \<Longrightarrow>
   native_size s' = native_size s \<and> current_source s' = current_source s"
  unfolding native_size_def current_source_def by (simp split: option.split)

lemma exportHighRes_source:
  "native_size (exportHighRes s) = native_size s \<and> current_source (exportHighRes s) = current_source s"
  by (rule source_cong) (simp_all add: exportHighRes_def split: prod.split)

lemma exportHighRes_fields:
  "canvas_attached (exportCanvas (exportHighRes s)) \<and>
   \<not> playing (displayShader (exportHighRes s)) \<and>
   pending_timers (exportHighRes s) = Suc (pending_timers s) \<and>
   pending_saves (exportHighRes s) = pending_saves s \<and>
   uncaught_errors (exportHighRes s) = uncaught_errors s \<and>
   saved (exportHighRes s) = saved s \<and> play (exportHighRes s) = play s \<and>
   u_nShuffles (exportShader (exportHighRes s)) = nShuffles s \<and>
   u_nStrips (exportShader (exportHighRes s)) = nStrips s \<and>
   u_inputStream (exportShader (exportHighRes s)) = current_source s \<and>
   canvas_width (exportCanvas (exportHighRes s)) =
     to_unsigned_long (fst (export_size (nShuffles s) (fst (native_size s)) (snd (native_size s)))) \<and>
   canvas_height (exportCanvas (exportHighRes s)) =
     to_unsigned_long (snd (export_size (nShuffles s) (fst (native_size s)) (snd (native_size s))))"
proof -
  obtain w h where wh: "export_size (nShuffles s) (fst (native_size s)) (snd (native_size s)) = (w, h)"
    by (cases "export_size (nShuffles s) (fst (native_size s)) (snd (native_size s))")
  then show ?thesis
    by (simp add: exportHighRes_def resize_canvas_def shader_defs)
qed

lemma export_timer_fired_fields:
  "canvas_attached (exportCanvas (export_timer_fired s)) = canvas_attached (exportCanvas s) \<and>
   playing (displayShader (export_timer_fired s)) = playing (displayShader s) \<and>
   pending_timers (export_timer_fired s) = pending_timers s - 1 \<and>
   pending_saves (export_timer_fired s) = pending_saves s @
     [Some \<lparr>frame_width = canvas_width (exportCanvas s), frame_height = canvas_height (exportCanvas s),
            frame_nShuffles = u_nShuffles (exportShader s), frame_nStrips = u_nStrips (exportShader s),
            frame_source = u_inputStream (exportShader s)\<rparr>] \<and>
   uncaught_errors (export_timer_fired s) = uncaught_errors s \<and>
   saved (export_timer_fired s) = saved s \<and> play (export_timer_fired s) = play s"
  by (simp add: export_timer_fired_def sp_step_def)

lemma export_save_settled_ok_attached:
  assumes "canvas_attached (exportCanvas s)"
  shows "\<not> canvas_attached (exportCanvas (export_save_settled i True s)) \<and>
    playing (displayShader (export_save_settled i True s)) \<and>
    pending_saves (export_save_settled i True s) = remove_at i (pending_saves s) \<and>
    uncaught_errors (export_save_settled i True s) = uncaught_errors s \<and>
    saved (export_save_settled i True s) = saved s @ [(''pixelquilt'', pending_saves s ! i)]"
  using assms by (simp add: export_save_settled_def Let_def run_play_def shader_defs split: play_kind.split)

lemma export_save_settled_ok_detached:
  assumes "\<not> canvas_attached (exportCanvas s)"
  shows "export_save_settled i True s =
    s\<lparr>pending_saves := remove_at i (pending_saves s),
      saved := saved s @ [(''pixelquilt'', pending_saves s ! i)],
      uncaught_errors := uncaught_errors s @ [NotFoundError]\<rparr>"
  using assms by (simp add: export_save_settled_def Let_def)

lemma export_save_settled_failed:
  "export_save_settled i False s =
    s\<lparr>pending_saves := remove_at i (pending_saves s), uncaught_errors := uncaught_errors s @ [SaveError]\<rparr>"
  by (simp add: export_save_settled_def Let_def)

lemmas export_stage_simps = exportHighRes_source exportHighRes_fields export_timer_fired_fields
  export_save_settled_ok_attached export_save_settled_ok_detached export_save_settled_failed


lemma export_frame_size_bounded:
  "unat (to_unsigned_long (fst (export_size (nShuffles s) (fst (native_size s)) (snd (native_size s))))) \<le> 4096 \<and>
   unat (to_unsigned_long (snd (export_size (nShuffles s) (fst (native_size s)) (snd (native_size s))))) \<le> 4096"
  using export_size_bounds [of "fst (native_size s)" "snd (native_size s)" "nShuffles s"]
    native_size_nonneg [of s]
  by (simp add: MAX_EXPORT_DIMENSION_def unat_to_unsigned_long_le)


end
