(* ===== verification/Input.thy ===== *)
theory Input
  imports AppState
begin

text \<open>
  Input Source Manager (src/src/main.js): the camera and image sources.
  \<^item> \<open>getWebcamStream_settled\<close>: how \<open>getWebcamStream\<close> (lines 11--31) ends once the
    camera request settles: a fresh video element playing a fresh live stream, or the
    error, logged and rethrown.
  \<^item> \<open>stopWebcamStream\<close> (lines 130--134) and \<open>removeVideoInput\<close> (lines 49--54).
  \<^item> \<open>handleImageDrop\<close> (lines 56--62) and \<open>handleImageFile\<close> (lines 64--78), whose
    \<open>onload\<close> callbacks run later as \<open>image_loaded\<close>.
  \<^item> \<open>switchCamera\<close> (lines 136--149), split at its \<open>await\<close>: \<open>switchCamera_start\<close>
    runs up to the camera request, \<open>switchCamera_resume\<close> runs when it settles.
\<close>

definition getWebcamStream_settled :: "camera_result \<Rightarrow> session \<Rightarrow> (js_error + video) \<times> session" where
  "getWebcamStream_settled r s =
     (case r of
        CameraStream w h \<Rightarrow>
          (Inr \<lparr>video_id = next_media_id s, srcObject = Some (next_media_id s),
                videoWidth = w, videoHeight = h\<rparr>,
           s\<lparr>live_streams := insert (next_media_id s) (live_streams s),
             next_media_id := Suc (next_media_id s)\<rparr>)
      | CameraDenied \<Rightarrow>
          (Inl CameraAccessError, s\<lparr>console_errors := console_errors s @ [CameraAccessError]\<rparr>))"

definition stopWebcamStream :: "session \<Rightarrow> session" where
  "stopWebcamStream s =
     (case srcObject (videoInput s) of
        Some stream \<Rightarrow> s\<lparr>live_streams := live_streams s - {stream}\<rparr>
      | None \<Rightarrow> s)"

definition removeVideoInput :: "session \<Rightarrow> session" where
  "removeVideoInput s =
     (let s' = stopWebcamStream s
      in if video_id (videoInput s') \<in> body_videos s'
         then s'\<lparr>body_videos := body_videos s' - {video_id (videoInput s')}\<rparr>
         else s')"

definition handleImageFile :: "dropped_file \<Rightarrow> session \<Rightarrow> session" where
  "handleImageFile f s = s\<lparr>pending_loads := pending_loads s @ [f]\<rparr>"

definition handleImageDrop :: "dropped_file list \<Rightarrow> session \<Rightarrow> session" where
  "handleImageDrop files s =
     (case files of
        f # _ \<Rightarrow> if starts_with (file_type f) ''image/'' then handleImageFile f s else s
      | [] \<Rightarrow> s)"

text \<open>Lines 66--74: the reader and the image have loaded the \<open>i\<close>-th pending file.  A
  file that does not decode never fires \<open>image.onload\<close>, and nothing else happens.\<close>

definition image_loaded :: "nat \<Rightarrow> session \<Rightarrow> session" where
  "image_loaded i s =
     (let s0 = s\<lparr>pending_loads := remove_at i (pending_loads s)\<rparr>
      in case file_image (pending_loads s ! i) of
           None \<Rightarrow> s0
         | Some img \<Rightarrow>
             (let s1 = removeVideoInput s0;
                  s2 = run_play (s1\<lparr>imageInput := Some img, play := PlayImage\<rparr>)
              in s2\<lparr>displayShader := sp_set_texture (ImageSource img) (displayShader s2)\<rparr>))"

definition toggled_facing :: "facing_mode \<Rightarrow> facing_mode" where
  "toggled_facing m = (if m = User then Environment else User)"

definition switchCamera_start :: "session \<Rightarrow> session" where
  "switchCamera_start s =
     (if imageInput s \<noteq> None then s
      else let s' = stopWebcamStream s
           in s'\<lparr>pending_switches := pending_switches s' @ [toggled_facing (currentFacingMode s')]\<rparr>)"

definition switchCamera_resume :: "nat \<Rightarrow> camera_result \<Rightarrow> session \<Rightarrow> session" where
  "switchCamera_resume i r s =
     (let newFacingMode = pending_switches s ! i;
          s0 = s\<lparr>pending_switches := remove_at i (pending_switches s)\<rparr>
      in case getWebcamStream_settled r s0 of
           (Inr v, s1) \<Rightarrow>
             s1\<lparr>videoInput := v,
               displayShader := sp_set_texture (VideoSource (video_id v)) (displayShader s1),
               currentFacingMode := newFacingMode,
               body_flipped := (newFacingMode = Environment)\<rparr>
         | (Inl e, s1) \<Rightarrow> s1\<lparr>console_errors := console_errors s1 @ [e]\<rparr>)"

lemma stopWebcamStream_frame [frame_simps]:
  "nStrips (stopWebcamStream s) = nStrips s \<and> nShuffles (stopWebcamStream s) = nShuffles s \<and>
   displayShader (stopWebcamStream s) = displayShader s \<and>
   exportCanvas (stopWebcamStream s) = exportCanvas s"
  by (simp add: stopWebcamStream_def split: option.split)

lemma removeVideoInput_frame [frame_simps]:
  "nStrips (removeVideoInput s) = nStrips s \<and> nShuffles (removeVideoInput s) = nShuffles s \<and>
   displayShader (removeVideoInput s) = displayShader s \<and>
   exportCanvas (removeVideoInput s) = exportCanvas s"
  by (simp add: removeVideoInput_def Let_def stopWebcamStream_frame)

lemma image_loaded_frame [frame_simps]:
  "nStrips (image_loaded i s) = nStrips s \<and> nShuffles (image_loaded i s) = nShuffles s \<and>
   u_nStrips (displayShader (image_loaded i s)) = u_nStrips (displayShader s) \<and>
   u_nShuffles (displayShader (image_loaded i s)) = u_nShuffles (displayShader s) \<and>
   exportCanvas (image_loaded i s) = exportCanvas s"
  by (simp add: image_loaded_def Let_def run_play_frame removeVideoInput_frame shader_defs
      split: option.split)

lemma switchCamera_start_frame [frame_simps]:
  "nStrips (switchCamera_start s) = nStrips s \<and> nShuffles (switchCamera_start s) = nShuffles s \<and>
   displayShader (switchCamera_start s) = displayShader s \<and>
   exportCanvas (switchCamera_start s) = exportCanvas s"
  by (simp add: switchCamera_start_def Let_def stopWebcamStream_frame)

lemma switchCamera_resume_frame [frame_simps]:
  "nStrips (switchCamera_resume i r s) = nStrips s \<and>
   nShuffles (switchCamera_resume i r s) = nShuffles s \<and>
   u_nStrips (displayShader (switchCamera_resume i r s)) = u_nStrips (displayShader s) \<and>
   u_nShuffles (displayShader (switchCamera_resume i r s)) = u_nShuffles (displayShader s) \<and>
   exportCanvas (switchCamera_resume i r s) = exportCanvas s"
  by (simp add: switchCamera_resume_def Let_def getWebcamStream_settled_def shader_defs
      split: camera_result.split)

lemma handleImageDrop_frame [frame_simps]:
  "nStrips (handleImageDrop fs s) = nStrips s \<and> nShuffles (handleImageDrop fs s) = nShuffles s \<and>
   displayShader (handleImageDrop fs s) = displayShader s \<and>
   exportCanvas (handleImageDrop fs s) = exportCanvas s"
  by (simp add: handleImageDrop_def handleImageFile_def split: list.split)

lemma stopWebcamStream_fields:
  "pending_switches (stopWebcamStream s) = pending_switches s \<and>
   imageInput (stopWebcamStream s) = imageInput s \<and>
   videoInput (stopWebcamStream s) = videoInput s \<and>
   currentFacingMode (stopWebcamStream s) = currentFacingMode s \<and>
   lastTapTime (stopWebcamStream s) = lastTapTime s \<and>
   console_errors (stopWebcamStream s) = console_errors s \<and>
   uncaught_errors (stopWebcamStream s) = uncaught_errors s \<and>
   live_streams (stopWebcamStream s) = live_streams s - set_option (srcObject (videoInput s))"
  by (simp add: stopWebcamStream_def split: option.split)

lemma removeVideoInput_fields:
  "live_streams (removeVideoInput s) = live_streams s - set_option (srcObject (videoInput s)) \<and>
   video_id (videoInput s) \<notin> body_videos (removeVideoInput s) \<and>
   pending_switches (removeVideoInput s) = pending_switches s \<and>
   videoInput (removeVideoInput s) = videoInput s"
  by (auto simp: removeVideoInput_def Let_def stopWebcamStream_fields)

text \<open>Stopping the current camera leaves every other stream as it was.\<close>

lemma stopWebcamStream_orphan:
  "srcObject (videoInput s) \<noteq> Some x \<Longrightarrow>
   (x \<in> live_streams (stopWebcamStream s)) = (x \<in> live_streams s) \<and>
   videoInput (stopWebcamStream s) = videoInput s \<and> next_media_id (stopWebcamStream s) = next_media_id s"
  by (auto simp: stopWebcamStream_def split: option.split)

lemma removeVideoInput_orphan:
  "srcObject (videoInput s) \<noteq> Some x \<Longrightarrow>
   (x \<in> live_streams (removeVideoInput s)) = (x \<in> live_streams s) \<and>
   videoInput (removeVideoInput s) = videoInput s \<and> next_media_id (removeVideoInput s) = next_media_id s"
  by (simp add: removeVideoInput_def Let_def stopWebcamStream_orphan)

text \<open>A decoded image becomes the input and restarts the display loop, whatever the
  loop was doing before.\<close>

lemma image_loaded_Some:
  "file_image (pending_loads s ! i) = Some img \<Longrightarrow>
   imageInput (image_loaded i s) = Some img \<and> play (image_loaded i s) = PlayImage \<and>
   playing (displayShader (image_loaded i s)) \<and> on_frame (displayShader (image_loaded i s)) = NoCallback \<and>
   u_inputStream (displayShader (image_loaded i s)) = ImageSource img \<and>
   pending_loads (image_loaded i s) = remove_at i (pending_loads s) \<and>
   pending_timers (image_loaded i s) = pending_timers s \<and>
   pending_saves (image_loaded i s) = pending_saves s"
  by (simp add: image_loaded_def Let_def run_play_def shader_defs removeVideoInput_def
      stopWebcamStream_def split: option.split)


text \<open>
  C16. A drop starts reading a file exactly when the first dropped file's type starts
  with \<open>image/\<close>; any other drop (no file, or a first file of another type) leaves the
  state unchanged, with no error and no feedback.
\<close>

theorem handleImageDrop_filter:
  "handleImageDrop files s \<noteq> s \<longleftrightarrow>
     files \<noteq> [] \<and> starts_with (file_type (hd files)) ''image/''"
proof -
  have "s\<lparr>pending_loads := pending_loads s @ [f]\<rparr> \<noteq> s" for f
  proof
    assume eq: "s\<lparr>pending_loads := pending_loads s @ [f]\<rparr> = s"
    from arg_cong [OF eq, of pending_loads] show False by simp
  qed
  then show ?thesis
    by (auto simp: handleImageDrop_def handleImageFile_def split: list.split)
qed


text \<open>
  C17. When a dropped picture has been read and decoded, and the only live camera stream
  is the current video's, the camera is released: no stream is live any more, the video
  element is out of the document, the image becomes the input, and the display renderer
  shows it and runs without the per-frame video refresh.
\<close>

theorem image_loaded_replaces_camera:
  assumes "file_image (pending_loads s ! i) = Some img"
    and "live_streams s \<subseteq> set_option (srcObject (videoInput s))"
  shows "live_streams (image_loaded i s) = {} \<and>
    video_id (videoInput s) \<notin> body_videos (image_loaded i s) \<and>
    imageInput (image_loaded i s) = Some img \<and>
    u_inputStream (displayShader (image_loaded i s)) = ImageSource img \<and>
    playing (displayShader (image_loaded i s)) \<and>
    on_frame (displayShader (image_loaded i s)) = NoCallback"
  using assms removeVideoInput_fields [of "s\<lparr>pending_loads := remove_at i (pending_loads s)\<rparr>"]
  by (auto simp: image_loaded_def Let_def run_play_def shader_defs)

theorem image_loaded_replaces_camera_witness:
  "file_image (pending_loads (page_before_main\<lparr>pending_loads := [\<lparr>file_type = ''image/png'',
      file_image = Some \<lparr>naturalWidth = 800, naturalHeight = 600\<rparr>\<rparr>]\<rparr>) ! 0) =
     Some \<lparr>naturalWidth = 800, naturalHeight = 600\<rparr> \<and>
   live_streams (page_before_main\<lparr>pending_loads := [\<lparr>file_type = ''image/png'',
      file_image = Some \<lparr>naturalWidth = 800, naturalHeight = 600\<rparr>\<rparr>]\<rparr>) \<subseteq>
     set_option (srcObject (videoInput (page_before_main\<lparr>pending_loads := [\<lparr>file_type = ''image/png'',
      file_image = Some \<lparr>naturalWidth = 800, naturalHeight = 600\<rparr>\<rparr>]\<rparr>))) \<and>
   imageInput (image_loaded 0 (page_before_main\<lparr>pending_loads := [\<lparr>file_type = ''image/png'',
      file_image = Some \<lparr>naturalWidth = 800, naturalHeight = 600\<rparr>\<rparr>]\<rparr>)) =
     Some \<lparr>naturalWidth = 800, naturalHeight = 600\<rparr>"
  using image_loaded_replaces_camera [of "page_before_main\<lparr>pending_loads := [\<lparr>file_type = ''image/png'',
      file_image = Some \<lparr>naturalWidth = 800, naturalHeight = 600\<rparr>\<rparr>]\<rparr>" 0]
  by (simp add: page_before_main_def)

end
