(* ===== verification/Router.thy ===== *)
theory Router
  imports Export Input
begin

text \<open>
  Gesture/Input Router (src/src/main.js lines 151--198): the handlers that map input
  events to parameter changes, exports and camera switches.
  \<^item> \<open>on_keydown\<close>: the \<open>keydown\<close> listener (lines 151--173): an arrow key changes a
    parameter (\<open>key_params\<close>) and pushes the new value to the display renderer; \<open>'s'\<close>
    starts an export; every other key does nothing.
  \<^item> \<open>on_shutter_click\<close>: the shutter button (lines 175--177).
  \<^item> \<open>on_swipe\<close>: the \<open>handleTouch\<close> callback (lines 179--188): a delta above 16 resets
    the double-tap timer, then the parameter changes (\<open>swipe_params\<close>) and is pushed.
  \<^item> \<open>on_touchend\<close>: the double-tap detector (lines 191--198).
\<close>

definition push_nStrips :: "session \<Rightarrow> session" where
  "push_nStrips s = s\<lparr>displayShader := (displayShader s)\<lparr>u_nStrips := nStrips s\<rparr>\<rparr>"

definition push_nShuffles :: "session \<Rightarrow> session" where
  "push_nShuffles s = s\<lparr>displayShader := (displayShader s)\<lparr>u_nShuffles := nShuffles s\<rparr>\<rparr>"

definition on_keydown :: "string \<Rightarrow> session \<Rightarrow> session" where
  "on_keydown key s =
     (if key = ''ArrowUp'' \<or> key = ''ArrowDown'' then push_nStrips (key_params key s)
      else if key = ''ArrowRight'' \<or> key = ''ArrowLeft'' then push_nShuffles (key_params key s)
      else if key = ''s'' then exportHighRes s
      else s)"

definition on_shutter_click :: "session \<Rightarrow> session" where
  "on_shutter_click s = exportHighRes s"

definition on_swipe :: "string \<Rightarrow> js_number \<Rightarrow> session \<Rightarrow> session" where
  "on_swipe direction diff s =
     (let s0 = (if diff > 16 then s\<lparr>lastTapTime := 0\<rparr> else s);
          s1 = swipe_params direction diff s0
      in if direction = ''x'' then push_nShuffles s1 else push_nStrips s1)"

definition DOUBLE_TAP_MS :: ms where "DOUBLE_TAP_MS = 300"

definition on_touchend :: "ms \<Rightarrow> session \<Rightarrow> session" where
  "on_touchend currentTime s =
     (let s' = (if currentTime - lastTapTime s < DOUBLE_TAP_MS then switchCamera_start s else s)
      in s'\<lparr>lastTapTime := currentTime\<rparr>)"

lemma key_params_display [simp]: "displayShader (key_params key s) = displayShader s"
  by (simp add: key_params_def)

lemma key_params_canvas [simp]: "exportCanvas (key_params key s) = exportCanvas s"
  by (simp add: key_params_def)

lemma swipe_params_display [simp]: "displayShader (swipe_params d x s) = displayShader s"
  by (simp add: swipe_params_def)

lemma swipe_params_canvas [simp]: "exportCanvas (swipe_params d x s) = exportCanvas s"
  by (simp add: swipe_params_def)

lemma key_params_strips_only:
  "key = ''ArrowUp'' \<or> key = ''ArrowDown'' \<Longrightarrow> nShuffles (key_params key s) = nShuffles s"
  by (auto simp: key_params_def)

lemma key_params_shuffles_only:
  "key = ''ArrowRight'' \<or> key = ''ArrowLeft'' \<Longrightarrow> nStrips (key_params key s) = nStrips s"
  by (auto simp: key_params_def)

lemma swipe_params_x_strips: "nStrips (swipe_params ''x'' diff s) = nStrips s"
  by (simp add: swipe_params_def)

lemma swipe_params_y_shuffles:
  "direction \<noteq> ''x'' \<Longrightarrow> nShuffles (swipe_params direction diff s) = nShuffles s"
  by (simp add: swipe_params_def)

section \<open>The double-tap detector\<close>

text \<open>
  C11. A \<open>touchend\<close> at time \<open>t\<close> requests a camera switch exactly when it comes less
  than 300 ms after the previous one and no still image is shown; the request asks for
  the other facing mode and first stops the current camera's tracks.  The time of the
  \<open>touchend\<close> becomes the new reference.
\<close>

theorem on_touchend_double_tap:
  "pending_switches (on_touchend t s) =
     (if t - lastTapTime s < DOUBLE_TAP_MS \<and> imageInput s = None
      then pending_switches s @ [toggled_facing (currentFacingMode s)] else pending_switches s) \<and>
   live_streams (on_touchend t s) =
     (if t - lastTapTime s < DOUBLE_TAP_MS \<and> imageInput s = None
      then live_streams s - set_option (srcObject (videoInput s)) else live_streams s) \<and>
   lastTapTime (on_touchend t s) = t"
  by (simp add: on_touchend_def switchCamera_start_def Let_def stopWebcamStream_fields)

text \<open>
  C12. A swipe whose delta exceeds 16 resets the tap timer, so the next \<open>touchend\<close>
  (at any clock time of at least 300 ms) does not complete a double tap.
\<close>

theorem swipe_resets_double_tap:
  assumes "16 < diff" "DOUBLE_TAP_MS \<le> t"
  shows "pending_switches (on_touchend t (on_swipe direction diff s)) = pending_switches s"
  using assms
  by (simp add: on_touchend_def on_swipe_def Let_def push_nStrips_def push_nShuffles_def
      swipe_params_def)

theorem swipe_resets_double_tap_witness:
  "16 < (20::real) \<and> DOUBLE_TAP_MS \<le> 5100 \<and>
   pending_switches (on_touchend 5100 (on_swipe ''x'' 20 (page_before_main\<lparr>lastTapTime := 5000\<rparr>))) =
   pending_switches (page_before_main\<lparr>lastTapTime := 5000\<rparr>)"
  using swipe_resets_double_tap [of 20 5100 "''x''" "page_before_main\<lparr>lastTapTime := 5000\<rparr>"]
  by (simp add: DOUBLE_TAP_MS_def)

text \<open>
  C13. Only a positive delta resets the timer (\<open>if (diff > 16)\<close>): after a swipe with a
  delta below \<open>-16\<close>, whose magnitude exceeds 16, a \<open>touchend\<close> within 300 ms of the
  previous one still switches the camera.
\<close>

theorem negative_swipe_keeps_double_tap:
  assumes "diff < -16" "imageInput s = None" "t - lastTapTime s < DOUBLE_TAP_MS"
  shows "pending_switches (on_touchend t (on_swipe direction diff s)) =
           pending_switches s @ [toggled_facing (currentFacingMode s)]"
  using assms
  by (simp add: on_touchend_def on_swipe_def Let_def push_nStrips_def push_nShuffles_def
      swipe_params_def switchCamera_start_def stopWebcamStream_fields)

theorem negative_swipe_keeps_double_tap_witness:
  "(-40::real) < -16 \<and> imageInput (page_before_main\<lparr>lastTapTime := 5000\<rparr>) = None \<and>
   5100 - lastTapTime (page_before_main\<lparr>lastTapTime := 5000\<rparr>) < DOUBLE_TAP_MS \<and>
   pending_switches (on_touchend 5100 (on_swipe ''x'' (-40) (page_before_main\<lparr>lastTapTime := 5000\<rparr>))) =
     [Environment]"
  using negative_swipe_keeps_double_tap [of "-40" "page_before_main\<lparr>lastTapTime := 5000\<rparr>" 5100 "''x''"]
  by (simp add: DOUBLE_TAP_MS_def page_before_main_def toggled_facing_def)

text \<open>
  C14. Two \<open>touchend\<close>s exactly 300 ms apart are not a double tap (\<open>< 300\<close>): the second
  only records its time.
\<close>

theorem taps_300ms_apart_no_switch:
  "on_touchend (lastTapTime s + 300) s = s\<lparr>lastTapTime := lastTapTime s + 300\<rparr>"
  by (simp add: on_touchend_def DOUBLE_TAP_MS_def)

text \<open>
  C15. While a still image is shown, a double tap changes nothing but the tap time: no
  camera switch, no stream stopped, no error.
\<close>

theorem image_ignores_double_tap:
  assumes "imageInput s \<noteq> None"
  shows "on_touchend t s = s\<lparr>lastTapTime := t\<rparr>"
  using assms by (simp add: on_touchend_def switchCamera_start_def)

theorem image_ignores_double_tap_witness:
  "imageInput (page_before_main\<lparr>imageInput := Some \<lparr>naturalWidth = 100, naturalHeight = 100\<rparr>\<rparr>) \<noteq> None \<and>
   on_touchend 10 (page_before_main\<lparr>imageInput := Some \<lparr>naturalWidth = 100, naturalHeight = 100\<rparr>\<rparr>) =
   page_before_main\<lparr>imageInput := Some \<lparr>naturalWidth = 100, naturalHeight = 100\<rparr>, lastTapTime := 10\<rparr>"
  using image_ignores_double_tap [of "page_before_main\<lparr>imageInput := Some \<lparr>naturalWidth = 100, naturalHeight = 100\<rparr>\<rparr>" 10]
  by simp

lemma on_keydown_params:
  "nStrips (on_keydown key s) = nStrips (key_params key s) \<and>
   nShuffles (on_keydown key s) = nShuffles (key_params key s)"
proof (cases "key = ''ArrowUp'' \<or> key = ''ArrowDown'' \<or> key = ''ArrowRight'' \<or> key = ''ArrowLeft''")
  case True
  then show ?thesis by (auto simp: on_keydown_def push_nStrips_def push_nShuffles_def)
next
  case False
  then show ?thesis by (simp add: on_keydown_def key_params_other exportHighRes_frame)
qed

lemma on_swipe_params:
  "nStrips (on_swipe direction diff s) = nStrips (swipe_params direction diff s) \<and>
   nShuffles (on_swipe direction diff s) = nShuffles (swipe_params direction diff s)"
  by (simp add: on_swipe_def Let_def push_nStrips_def push_nShuffles_def swipe_params_def)

lemma on_touchend_params:
  "nStrips (on_touchend t s) = nStrips s \<and> nShuffles (on_touchend t s) = nShuffles s"
  by (simp add: on_touchend_def Let_def switchCamera_start_frame)


end
