(* ===== verification/Session.thy ===== *)
theory Session
  imports Router
begin

text \<open>
  The whole program as an event-driven state machine.  \<open>main_init\<close> is \<open>main()\<close>
  (src/src/main.js lines 33--47, 83--91, 191, 200--205) from the settling of its first
  camera request to the end of its body: either the request fails and \<open>main\<close> rejects
  before any handler is installed, or the session starts with the display loop
  running.  An \<open>event\<close> is a DOM event that reaches a handler of main.js or the
  resumption of a pending asynchronous continuation; \<open>step\<close> runs its handler to
  completion (JavaScript runs one task at a time), and is \<open>None\<close> for a resumption
  that is not pending.  \<open>reachable\<close> holds for the states of every run.
\<close>

text \<open>Lines 83--91: the two renderers share the fragment shader; the export renderer draws
  on a fresh canvas (default size 300 by 150, not in the document); both get the two
  uniforms and the input texture.\<close>

definition init_renderers :: "'a params_scheme \<Rightarrow> video \<Rightarrow> shader \<times> shader \<times> canvas" where
  "init_renderers p v =
     (let sh = sp_initialize (nShuffles p) (nStrips p) (VideoSource (video_id v))
      in (sh, sh, \<lparr>canvas_width = 300, canvas_height = 150, canvas_attached = False,
                  canvas_frame = None\<rparr>))"

definition main_init :: "camera_result \<Rightarrow> js_error + session" where
  "main_init r =
     (case getWebcamStream_settled r (page_before_main\<lparr>currentFacingMode := User\<rparr>) of
        (Inl e, _) \<Rightarrow> Inl e
      | (Inr v, s) \<Rightarrow>
          (let s1 = s\<lparr>videoInput := v, imageInput := None,
                     nStrips := nStrips init_params, nShuffles := nShuffles init_params,
                     app_ready := True, body_videos := insert (video_id v) (body_videos s)\<rparr>
           in case init_renderers s1 v of
                (display, export, canvas) \<Rightarrow>
                  Inr (run_play
                    (s1\<lparr>displayShader := display, exportShader := export, exportCanvas := canvas,
                        lastTapTime := 0, play := PlayRefreshingVideo\<rparr>))))"

lemmas main_init_simps = main_init_def init_renderers_def getWebcamStream_settled_def
  page_before_main_def run_play_def Let_def

text \<open>A frame of the display loop: the renderer calls the callback \<open>play\<close> gave it,
  which for the first \<open>play\<close> (lines 201--203) uploads the current \<open>videoInput\<close>.\<close>

definition display_frame :: "session \<Rightarrow> session" where
  "display_frame s =
     (case on_frame (displayShader s) of
        RefreshInputStream \<Rightarrow>
          s\<lparr>displayShader := sp_set_texture (VideoSource (video_id (videoInput s))) (displayShader s)\<rparr>
      | NoCallback \<Rightarrow> s)"

datatype event =
    KeyDown string
  | ShutterClick
  | Swipe string js_number
  | TouchEnd ms
  | Drop "dropped_file list"
  | ImageDecoded nat
  | CameraSettled nat camera_result
  | ExportTimer
  | SaveSettled nat bool
  | DisplayFrame

fun step :: "event \<Rightarrow> session \<Rightarrow> session option" where
  "step (KeyDown key) s = Some (on_keydown key s)"
| "step ShutterClick s = Some (on_shutter_click s)"
| "step (Swipe direction diff) s = Some (on_swipe direction diff s)"
| "step (TouchEnd t) s = Some (on_touchend t s)"
| "step (Drop files) s = Some (handleImageDrop files s)"
| "step (ImageDecoded i) s =
     (if i < length (pending_loads s) then Some (image_loaded i s) else None)"
| "step (CameraSettled i r) s =
     (if i < length (pending_switches s) then Some (switchCamera_resume i r s) else None)"
| "step ExportTimer s = (if 0 < pending_timers s then Some (export_timer_fired s) else None)"
| "step (SaveSettled i ok) s =
     (if i < length (pending_saves s) then Some (export_save_settled i ok s) else None)"
| "step DisplayFrame s = (if playing (displayShader s) then Some (display_frame s) else None)"

fun run :: "event list \<Rightarrow> session \<Rightarrow> session option" where
  "run [] s = Some s"
| "run (e # es) s = (case step e s of None \<Rightarrow> None | Some s' \<Rightarrow> run es s')"

text \<open>The inputs of a run that reach the Parameter State: its keys and its swipes.\<close>

fun param_inputs :: "event list \<Rightarrow> param_input list" where
  "param_inputs [] = []"
| "param_inputs (KeyDown key # es) = KeyIn key # param_inputs es"
| "param_inputs (Swipe direction diff # es) = SwipeIn direction diff # param_inputs es"
| "param_inputs (_ # es) = param_inputs es"

inductive reachable :: "session \<Rightarrow> bool" where
  start: "main_init r = Inr s \<Longrightarrow> reachable s"
| step: "reachable s \<Longrightarrow> step e s = Some s' \<Longrightarrow> reachable s'"

text \<open>What every reachable state satisfies: the parameter bounds and grid, the display
  renderer's uniforms equal to the parameters, and the export canvas at most 4096
  pixels on each side.\<close>

definition session_inv :: "session \<Rightarrow> bool" where
  "session_inv s \<longleftrightarrow>
     params_ok s \<and> params_grid s \<and>
     u_nStrips (displayShader s) = nStrips s \<and> u_nShuffles (displayShader s) = nShuffles s \<and>
     unat (canvas_width (exportCanvas s)) \<le> 4096 \<and> unat (canvas_height (exportCanvas s)) \<le> 4096"

section \<open>Invariants of the reachable states\<close>

lemma display_frame_frame [frame_simps]:
  "nStrips (display_frame s) = nStrips s \<and> nShuffles (display_frame s) = nShuffles s \<and>
   u_nStrips (displayShader (display_frame s)) = u_nStrips (displayShader s) \<and>
   u_nShuffles (displayShader (display_frame s)) = u_nShuffles (displayShader s) \<and>
   exportCanvas (display_frame s) = exportCanvas s"
  by (simp add: display_frame_def shader_defs split: frame_callback.split)

lemma params_ok_frame:
  "nStrips s' = nStrips s \<Longrightarrow> nShuffles s' = nShuffles s \<Longrightarrow> params_ok s' = params_ok s"
  "nStrips s' = nStrips s \<Longrightarrow> nShuffles s' = nShuffles s \<Longrightarrow> params_grid s' = params_grid s"
  by (simp_all add: params_ok_def params_grid_def)

lemma session_inv_frame:
  assumes "session_inv s"
    and "nStrips s' = nStrips s" "nShuffles s' = nShuffles s"
    and "u_nStrips (displayShader s') = u_nStrips (displayShader s)"
    and "u_nShuffles (displayShader s') = u_nShuffles (displayShader s)"
    and "canvas_width (exportCanvas s') = canvas_width (exportCanvas s)"
    and "canvas_height (exportCanvas s') = canvas_height (exportCanvas s)"
  shows "session_inv s'"
  using assms params_ok_frame [of s' s] by (simp add: session_inv_def)

lemma session_inv_lastTapTime: "session_inv (s\<lparr>lastTapTime := t\<rparr>) = session_inv s"
  by (simp add: session_inv_def params_ok_def params_grid_def)

lemma session_inv_exportHighRes: "session_inv s \<Longrightarrow> session_inv (exportHighRes s)"
  by (simp add: session_inv_def params_ok_def params_grid_def exportHighRes_frame
      exportHighRes_canvas_bounds)

lemma session_inv_push_nStrips:
  assumes "session_inv s" "key = ''ArrowUp'' \<or> key = ''ArrowDown''"
  shows "session_inv (push_nStrips (key_params key s))"
proof -
  from assms(1) have "params_ok s" "params_grid s" by (simp_all add: session_inv_def)
  then have "params_ok (key_params key s)" "params_grid (key_params key s)"
    by (simp_all add: key_params_ok key_params_grid)
  then show ?thesis
    using assms key_params_strips_only [OF assms(2), of s]
    by (simp add: session_inv_def push_nStrips_def params_ok_def params_grid_def)
qed

lemma session_inv_push_nShuffles:
  assumes "session_inv s" "key = ''ArrowRight'' \<or> key = ''ArrowLeft''"
  shows "session_inv (push_nShuffles (key_params key s))"
proof -
  from assms(1) have "params_ok s" "params_grid s" by (simp_all add: session_inv_def)
  then have "params_ok (key_params key s)" "params_grid (key_params key s)"
    by (simp_all add: key_params_ok key_params_grid)
  then show ?thesis
    using assms key_params_shuffles_only [OF assms(2), of s]
    by (simp add: session_inv_def push_nShuffles_def params_ok_def params_grid_def)
qed

lemma session_inv_on_keydown: "session_inv s \<Longrightarrow> session_inv (on_keydown key s)"
  unfolding on_keydown_def
  by (simp add: session_inv_push_nStrips session_inv_push_nShuffles session_inv_exportHighRes)

lemma session_inv_on_swipe: "session_inv s \<Longrightarrow> session_inv (on_swipe direction diff s)"
proof -
  assume inv: "session_inv s"
  define s0 where "s0 = (if diff > 16 then s\<lparr>lastTapTime := 0\<rparr> else s)"
  have inv0: "session_inv s0" using inv by (simp add: s0_def session_inv_lastTapTime)
  then have ok: "params_ok (swipe_params direction diff s0)"
    "params_grid (swipe_params direction diff s0)"
    by (simp_all add: session_inv_def swipe_params_ok swipe_params_grid)
  show ?thesis
  proof (cases "direction = ''x''")
    case True
    with inv0 ok show ?thesis
      by (simp add: on_swipe_def Let_def s0_def [symmetric] session_inv_def push_nShuffles_def
          params_ok_def params_grid_def swipe_params_x_strips)
  next
    case False
    with inv0 ok show ?thesis
      by (simp add: on_swipe_def Let_def s0_def [symmetric] session_inv_def push_nStrips_def
          params_ok_def params_grid_def swipe_params_y_shuffles)
  qed
qed

lemma session_inv_on_touchend: "session_inv s \<Longrightarrow> session_inv (on_touchend t s)"
  unfolding on_touchend_def Let_def session_inv_lastTapTime
  by (auto intro: session_inv_frame simp: switchCamera_start_frame)

lemma session_inv_step: "session_inv s \<Longrightarrow> step e s = Some s' \<Longrightarrow> session_inv s'"
proof (cases e)
  case (KeyDown key)
  then show "session_inv s \<Longrightarrow> step e s = Some s' \<Longrightarrow> session_inv s'"
    by (auto intro: session_inv_on_keydown)
qed (auto simp: on_shutter_click_def session_inv_exportHighRes session_inv_on_swipe
      session_inv_on_touchend frame_simps split: if_splits intro: session_inv_frame)

lemma session_inv_init: "main_init r = Inr s \<Longrightarrow> session_inv s"
  by (cases r) (auto simp: main_init_simps session_inv_def shader_defs sp_initialize_def
      init_params_def params_ok_def params_grid_def param_bound_defs js_simps)

lemma reachable_session_inv: "reachable s \<Longrightarrow> session_inv s"
proof (induction rule: reachable.induct)
  case (start r s)
  then show ?case by (rule session_inv_init)
next
  case (step s e s')
  then show ?case using session_inv_step by blast
qed

lemma reachable_main: "reachable (projr (main_init (CameraStream w h)))"
  by (rule reachable.start [of "CameraStream w h"]) (simp add: main_init_simps)

lemma reachable_run: "reachable s \<Longrightarrow> run es s = Some s' \<Longrightarrow> reachable s'"
proof (induction es arbitrary: s)
  case Nil
  then show ?case by simp
next
  case (Cons e es)
  then obtain s1 where "step e s = Some s1" "run es s1 = Some s'"
    by (auto split: option.splits)
  with Cons show ?case by (blast intro: reachable.step)
qed

text \<open>
  C1. In every state the program can reach, whatever events arrived and in whatever
  order (keys, swipes, taps, drops, exports, camera replies, frames), \<open>nStrips\<close> lies in
  \<open>[1, 1920]\<close>, \<open>nShuffles\<close> in \<open>[1, 32]\<close>, \<open>nStrips\<close> is whole and \<open>nShuffles\<close> a
  multiple of \<open>1/8\<close>.
\<close>

theorem reachable_params_ok: "reachable s \<Longrightarrow> params_ok s \<and> params_grid s"
  using reachable_session_inv by (simp add: session_inv_def)

theorem reachable_params_ok_witness:
  "reachable (projr (main_init (CameraStream 640 480))) \<and>
   params_ok (projr (main_init (CameraStream 640 480))) \<and>
   params_grid (projr (main_init (CameraStream 640 480)))"
  using reachable_params_ok [OF reachable_main [of 640 480]] reachable_main [of 640 480] by simp

text \<open>
  C6. In every reachable state the display renderer's uniforms \<open>u_nStrips\<close> and
  \<open>u_nShuffles\<close> hold the current \<open>nStrips\<close> and \<open>nShuffles\<close>: every handler that
  changes a parameter pushes it at once, and no other handler touches them.
\<close>

theorem reachable_display_synced:
  "reachable s \<Longrightarrow> u_nStrips (displayShader s) = nStrips s \<and> u_nShuffles (displayShader s) = nShuffles s"
  using reachable_session_inv by (simp add: session_inv_def)

theorem reachable_display_synced_witness:
  "reachable (projr (main_init (CameraStream 640 480))) \<and>
   u_nStrips (displayShader (projr (main_init (CameraStream 640 480)))) =
     nStrips (projr (main_init (CameraStream 640 480)))"
  using reachable_display_synced [OF reachable_main [of 640 480]] reachable_main [of 640 480] by simp

text \<open>
  C7. In every reachable state the export canvas's \<open>width\<close> and \<open>height\<close> (WebIDL
  \<open>unsigned long\<close>, 32-bit words) are at most 4096: the conversion of the computed
  export size never wraps.
\<close>

theorem reachable_canvas_bounded:
  "reachable s \<Longrightarrow>
   unat (canvas_width (exportCanvas s)) \<le> 4096 \<and> unat (canvas_height (exportCanvas s)) \<le> 4096"
  using reachable_session_inv by (simp add: session_inv_def)

theorem reachable_canvas_bounded_witness:
  "reachable (projr (main_init (CameraStream 640 480))) \<and>
   unat (canvas_width (exportCanvas (projr (main_init (CameraStream 640 480))))) \<le> 4096"
  using reachable_canvas_bounded [OF reachable_main [of 640 480]] reachable_main [of 640 480] by simp

section \<open>The export sequence\<close>

lemma main_init_pending:
  "pending_saves (projr (main_init (CameraStream w h))) = [] \<and>
   pending_timers (projr (main_init (CameraStream w h))) = 0 \<and>
   pending_switches (projr (main_init (CameraStream w h))) = [] \<and>
   pending_loads (projr (main_init (CameraStream w h))) = []"
  by (simp add: main_init_simps
      split: play_kind.split)

text \<open>
  C8. An export that runs alone (no other save pending) and whose save succeeds:
  pressing the shutter, the 8 ms timer and the save's completion leave the display loop
  running and the export canvas detached, raise nothing, and save one picture named
  \<open>pixelquilt\<close> of the computed export size, drawn with the parameters and the input
  source current when the export was requested.
\<close>

theorem export_sequence_success:
  assumes "pending_saves s = []"
  shows "\<exists>s'. run [ShutterClick, ExportTimer, SaveSettled 0 True] s = Some s' \<and>
     playing (displayShader s') \<and> \<not> canvas_attached (exportCanvas s') \<and>
     uncaught_errors s' = uncaught_errors s \<and> pending_saves s' = [] \<and>
     saved s' = saved s @
       [(''pixelquilt'', Some
          \<lparr>frame_width = to_unsigned_long (fst (export_size (nShuffles s) (fst (native_size s)) (snd (native_size s)))),
           frame_height = to_unsigned_long (snd (export_size (nShuffles s) (fst (native_size s)) (snd (native_size s)))),
           frame_nShuffles = nShuffles s, frame_nStrips = nStrips s,
           frame_source = current_source s\<rparr>)]"
  using assms by (simp add: on_shutter_click_def export_stage_simps)

theorem export_sequence_success_witness:
  "pending_saves (projr (main_init (CameraStream 1920 1080))) = [] \<and>
   (\<exists>s'. run [ShutterClick, ExportTimer, SaveSettled 0 True]
           (projr (main_init (CameraStream 1920 1080))) = Some s' \<and>
     playing (displayShader s') \<and> \<not> canvas_attached (exportCanvas s'))"
  using export_sequence_success [of "projr (main_init (CameraStream 1920 1080))"] main_init_pending
  by blast

text \<open>
  C9. When the save is rejected, nothing catches the rejection: the display loop stays
  paused, the export canvas stays in the document, \<open>SaveError\<close> is left uncaught and
  nothing is saved.
\<close>

theorem export_save_failure:
  assumes "pending_saves s = []"
  shows "\<exists>s'. run [ShutterClick, ExportTimer, SaveSettled 0 False] s = Some s' \<and>
     \<not> playing (displayShader s') \<and> canvas_attached (exportCanvas s') \<and>
     uncaught_errors s' = uncaught_errors s @ [SaveError] \<and> saved s' = saved s"
  using assms by (simp add: on_shutter_click_def export_stage_simps)

theorem export_save_failure_witness:
  "pending_saves (projr (main_init (CameraStream 1920 1080))) = [] \<and>
   (\<exists>s'. run [ShutterClick, ExportTimer, SaveSettled 0 False]
           (projr (main_init (CameraStream 1920 1080))) = Some s' \<and>
     \<not> playing (displayShader s') \<and> canvas_attached (exportCanvas s'))"
  using export_save_failure [of "projr (main_init (CameraStream 1920 1080))"] main_init_pending
  by blast

text \<open>
  C10. Two exports requested before the first has finished (the shutter pressed twice):
  both saves succeed, but the second callback's \<open>removeChild\<close> finds the canvas already
  removed and throws \<open>NotFoundError\<close>, which nothing catches.
\<close>

theorem export_twice_not_found:
  assumes "pending_saves s = []"
  shows "\<exists>s'. run [ShutterClick, ShutterClick, ExportTimer, ExportTimer,
                   SaveSettled 0 True, SaveSettled 0 True] s = Some s' \<and>
     uncaught_errors s' = uncaught_errors s @ [NotFoundError] \<and>
     length (saved s') = length (saved s) + 2"
  using assms by (simp add: on_shutter_click_def export_stage_simps remove_at_def)

theorem export_twice_not_found_witness:
  "pending_saves (projr (main_init (CameraStream 1920 1080))) = [] \<and>
   (\<exists>s'. run [ShutterClick, ShutterClick, ExportTimer, ExportTimer,
               SaveSettled 0 True, SaveSettled 0 True] (projr (main_init (CameraStream 1920 1080))) = Some s' \<and>
     uncaught_errors s' = [NotFoundError])"
proof -
  have h: "pending_saves (projr (main_init (CameraStream 1920 1080))) = []"
    using main_init_pending by blast
  have u: "uncaught_errors (projr (main_init (CameraStream 1920 1080))) = []"
    by (simp add: main_init_simps
        split: play_kind.split)
  from export_twice_not_found [OF h] obtain s' where
    r: "run [ShutterClick, ShutterClick, ExportTimer, ExportTimer, SaveSettled 0 True,
             SaveSettled 0 True] (projr (main_init (CameraStream 1920 1080))) = Some s'" and
    e: "uncaught_errors s' = uncaught_errors (projr (main_init (CameraStream 1920 1080))) @ [NotFoundError]"
    by blast
  from e u have "uncaught_errors s' = [NotFoundError]" by simp
  with h r show ?thesis by blast
qed

section \<open>Camera and image interleavings\<close>

lemmas trace_simps = main_init_simps
  on_touchend_def switchCamera_start_def stopWebcamStream_def handleImageDrop_def
  handleImageFile_def image_loaded_def removeVideoInput_def switchCamera_resume_def
  run_play_def shader_defs Let_def DOUBLE_TAP_MS_def remove_at_def starts_with_def
  toggled_facing_def sp_initialize_def

text \<open>
  C18. A camera switch that resumes while a still image is the input (an image was
  dropped and decoded during the switch's \<open>await\<close>): \<open>switchCamera\<close> does not
  check \<open>imageInput\<close> again after the \<open>await\<close> (line 142), so it starts a new live
  camera stream, makes it \<open>videoInput\<close> and points the display renderer at it, while
  the image stays the input of every export.  The spec's promise that a still image
  leaves no active camera track fails.
\<close>

theorem switch_resume_overrides_image:
  assumes "i < length (pending_switches s)" "imageInput s = Some img"
  shows "\<exists>s'. step (CameraSettled i (CameraStream w h)) s = Some s' \<and>
     imageInput s' = Some img \<and> current_source s' = ImageSource img \<and>
     live_streams s' = insert (next_media_id s) (live_streams s) \<and>
     videoInput s' = \<lparr>video_id = next_media_id s, srcObject = Some (next_media_id s),
                     videoWidth = w, videoHeight = h\<rparr> \<and>
     u_inputStream (displayShader s') = VideoSource (next_media_id s)"
  using assms
  by (simp add: switchCamera_resume_def Let_def getWebcamStream_settled_def sp_set_texture_def
      current_source_def)

theorem switch_resume_overrides_image_witness:
  "0 < length (pending_switches (the (run [TouchEnd 1000, TouchEnd 1100,
      Drop [\<lparr>file_type = ''image/png'', file_image = Some \<lparr>naturalWidth = 100, naturalHeight = 80\<rparr>\<rparr>],
      ImageDecoded 0] (projr (main_init (CameraStream 640 480)))))) \<and>
   imageInput (the (run [TouchEnd 1000, TouchEnd 1100,
      Drop [\<lparr>file_type = ''image/png'', file_image = Some \<lparr>naturalWidth = 100, naturalHeight = 80\<rparr>\<rparr>],
      ImageDecoded 0] (projr (main_init (CameraStream 640 480))))) =
     Some \<lparr>naturalWidth = 100, naturalHeight = 80\<rparr> \<and>
   (\<exists>s'. step (CameraSettled 0 (CameraStream 640 480)) (the (run [TouchEnd 1000, TouchEnd 1100,
      Drop [\<lparr>file_type = ''image/png'', file_image = Some \<lparr>naturalWidth = 100, naturalHeight = 80\<rparr>\<rparr>],
      ImageDecoded 0] (projr (main_init (CameraStream 640 480))))) = Some s' \<and>
    live_streams s' = {1} \<and> u_inputStream (displayShader s') = VideoSource 1)"
proof -
  let ?s = "the (run [TouchEnd 1000, TouchEnd 1100,
      Drop [\<lparr>file_type = ''image/png'', file_image = Some \<lparr>naturalWidth = 100, naturalHeight = 80\<rparr>\<rparr>],
      ImageDecoded 0] (projr (main_init (CameraStream 640 480))))"
  have h: "0 < length (pending_switches ?s)"
    "imageInput ?s = Some \<lparr>naturalWidth = 100, naturalHeight = 80\<rparr>"
    "next_media_id ?s = 1" "live_streams ?s = {}"
    by (simp_all add: trace_simps)
  from switch_resume_overrides_image [OF h(1,2), of 640 480] h show ?thesis by auto
qed

text \<open>
  C19. Two camera switches pending at once (three taps in quick succession start two,
  each stopping the same old stream): when both succeed, both new streams are live but
  only the second is \<open>videoInput\<close>'s, so \<open>stopWebcamStream\<close> can never reach the
  first (C25 shows that it then stays live for good).
\<close>

theorem overlapping_switches_orphan_stream:
  assumes "2 \<le> length (pending_switches s)"
  shows "\<exists>s'. run [CameraSettled 0 (CameraStream a b), CameraSettled 0 (CameraStream c d)] s = Some s' \<and>
     next_media_id s \<in> live_streams s' \<and> Suc (next_media_id s) \<in> live_streams s' \<and>
     srcObject (videoInput s') = Some (Suc (next_media_id s)) \<and>
     next_media_id s < next_media_id s' \<and> pending_switches s' = drop 2 (pending_switches s)"
proof -
  obtain f g fs where ps: "pending_switches s = f # g # fs"
    using assms by (cases "pending_switches s" rule: remdups_adj.cases) auto
  then show ?thesis
    by (simp add: switchCamera_resume_def Let_def getWebcamStream_settled_def remove_at_def)
qed

theorem overlapping_switches_orphan_stream_witness:
  "2 \<le> length (pending_switches (the (run [TouchEnd 1000, TouchEnd 1100, TouchEnd 1200]
      (projr (main_init (CameraStream 640 480)))))) \<and>
   (\<exists>s'. run [CameraSettled 0 (CameraStream 640 480), CameraSettled 0 (CameraStream 640 480)]
      (the (run [TouchEnd 1000, TouchEnd 1100, TouchEnd 1200] (projr (main_init (CameraStream 640 480)))))
      = Some s' \<and> 1 \<in> live_streams s' \<and> srcObject (videoInput s') = Some 2)"
proof -
  let ?s = "the (run [TouchEnd 1000, TouchEnd 1100, TouchEnd 1200] (projr (main_init (CameraStream 640 480))))"
  have h: "2 \<le> length (pending_switches ?s)" "next_media_id ?s = 1"
    by (simp_all add: trace_simps)
  obtain s' where r: "run [CameraSettled 0 (CameraStream 640 480), CameraSettled 0 (CameraStream 640 480)] ?s
      = Some s'"
    and l: "next_media_id ?s \<in> live_streams s'"
    and v: "srcObject (videoInput s') = Some (Suc (next_media_id ?s))"
    using overlapping_switches_orphan_stream [OF h(1), of 640 480 640 480] by blast
  have "1 \<in> live_streams s'" "srcObject (videoInput s') = Some 2" using l v h(2) by simp_all
  with h(1) r show ?thesis by blast
qed
lemma exportHighRes_streams:
  "live_streams (exportHighRes s) = live_streams s \<and> videoInput (exportHighRes s) = videoInput s \<and>
   next_media_id (exportHighRes s) = next_media_id s"
  by (simp add: exportHighRes_def split: prod.split)

lemma step_keeps_orphan:
  assumes "step e s = Some s'" "x \<in> live_streams s" "srcObject (videoInput s) \<noteq> Some x"
    "x < next_media_id s"
  shows "x \<in> live_streams s' \<and> srcObject (videoInput s') \<noteq> Some x \<and> x < next_media_id s'"
  using assms
proof (cases e)
  case (KeyDown key)
  then show ?thesis using assms
    by (auto simp: on_keydown_def push_nStrips_def push_nShuffles_def key_params_def
        exportHighRes_streams split: if_splits)
next
  case ShutterClick
  then show ?thesis using assms by (auto simp: on_shutter_click_def exportHighRes_streams)
next
  case (Swipe d diff)
  then show ?thesis using assms
    by (auto simp: on_swipe_def Let_def push_nStrips_def push_nShuffles_def swipe_params_def
        split: if_splits)
next
  case (TouchEnd t)
  then show ?thesis using assms
    by (auto simp: on_touchend_def switchCamera_start_def Let_def stopWebcamStream_orphan
        split: if_splits)
next
  case (Drop fs)
  then show ?thesis using assms
    by (auto simp: handleImageDrop_def handleImageFile_def split: list.splits if_splits)
next
  case (ImageDecoded i)
  then show ?thesis using assms
    by (auto simp: image_loaded_def Let_def run_play_def removeVideoInput_orphan shader_defs
        split: option.splits if_splits)
next
  case (CameraSettled i r)
  then show ?thesis using assms
    by (auto simp: switchCamera_resume_def Let_def getWebcamStream_settled_def
        split: camera_result.splits if_splits prod.splits)
next
  case ExportTimer
  then show ?thesis using assms by (auto simp: export_timer_fired_def Let_def split: if_splits)
next
  case (SaveSettled i ok)
  then show ?thesis using assms
    by (auto simp: export_save_settled_def Let_def run_play_def split: if_splits)
next
  case DisplayFrame
  then show ?thesis using assms
    by (auto simp: display_frame_def split: frame_callback.splits if_splits)
qed
text \<open>
  C25. A stream that is live but is not \<open>videoInput\<close>'s (as the first stream of C19)
  stays live whatever events follow: \<open>stopWebcamStream\<close> only ever stops
  \<open>videoInput\<close>'s stream and every later camera gets a fresh stream, so the leak is
  permanent and the camera stays on until the page is closed.
\<close>

theorem orphan_stream_stays_live:
  assumes "run es s = Some s'" "x \<in> live_streams s" "srcObject (videoInput s) \<noteq> Some x"
    "x < next_media_id s"
  shows "x \<in> live_streams s' \<and> srcObject (videoInput s') \<noteq> Some x"
  using assms
proof (induction es arbitrary: s)
  case Nil
  then show ?case by simp
next
  case (Cons e es)
  from Cons.prems(1) obtain s1 where s1: "step e s = Some s1" and r: "run es s1 = Some s'"
    by (auto split: option.splits)
  from step_keeps_orphan [OF s1 Cons.prems(2-4)]
  have "x \<in> live_streams s1" "srcObject (videoInput s1) \<noteq> Some x" "x < next_media_id s1"
    by auto
  then show ?case by (rule Cons.IH [OF r])
qed

theorem orphan_stream_stays_live_witness:
  "1 \<in> live_streams (the (run [TouchEnd 1000, TouchEnd 1100, TouchEnd 1200,
        CameraSettled 0 (CameraStream 640 480), CameraSettled 0 (CameraStream 640 480)]
        (projr (main_init (CameraStream 640 480))))) \<and>
   srcObject (videoInput (the (run [TouchEnd 1000, TouchEnd 1100, TouchEnd 1200,
        CameraSettled 0 (CameraStream 640 480), CameraSettled 0 (CameraStream 640 480)]
        (projr (main_init (CameraStream 640 480)))))) \<noteq> Some 1 \<and>
   1 < next_media_id (the (run [TouchEnd 1000, TouchEnd 1100, TouchEnd 1200,
        CameraSettled 0 (CameraStream 640 480), CameraSettled 0 (CameraStream 640 480)]
        (projr (main_init (CameraStream 640 480))))) \<and>
   (\<exists>s'. run [TouchEnd 5000, TouchEnd 5100, CameraSettled 0 (CameraStream 640 480)]
        (the (run [TouchEnd 1000, TouchEnd 1100, TouchEnd 1200,
        CameraSettled 0 (CameraStream 640 480), CameraSettled 0 (CameraStream 640 480)]
        (projr (main_init (CameraStream 640 480))))) = Some s' \<and> 1 \<in> live_streams s')"
proof -
  let ?s = "the (run [TouchEnd 1000, TouchEnd 1100, TouchEnd 1200,
        CameraSettled 0 (CameraStream 640 480), CameraSettled 0 (CameraStream 640 480)]
        (projr (main_init (CameraStream 640 480))))"
  have h: "1 \<in> live_streams ?s \<and> srcObject (videoInput ?s) \<noteq> Some 1 \<and> 1 < next_media_id ?s"
    by (simp add: trace_simps)
  obtain s' where r: "run [TouchEnd 5000, TouchEnd 5100, CameraSettled 0 (CameraStream 640 480)] ?s = Some s'"
    by (simp add: trace_simps)
  from h orphan_stream_stays_live [OF r] r show ?thesis by blast
qed
text \<open>
  C20. A camera switch whose request is denied: the old camera was stopped before the
  request, so afterwards no stream is live while \<open>videoInput\<close> and the facing mode are
  unchanged; the error is logged twice (by \<open>getWebcamStream\<close> and by \<open>switchCamera\<close>)
  and nothing is left uncaught.
\<close>

theorem failed_switch_leaves_no_camera:
  assumes "imageInput s = None" "pending_switches s = []" "t - lastTapTime s < DOUBLE_TAP_MS"
    and "live_streams s \<subseteq> set_option (srcObject (videoInput s))"
  shows "\<exists>s'. run [TouchEnd t, CameraSettled 0 CameraDenied] s = Some s' \<and>
     live_streams s' = {} \<and> videoInput s' = videoInput s \<and>
     currentFacingMode s' = currentFacingMode s \<and> pending_switches s' = [] \<and>
     console_errors s' = console_errors s @ [CameraAccessError, CameraAccessError] \<and>
     uncaught_errors s' = uncaught_errors s"
  using assms
  by (auto simp: on_touchend_def switchCamera_start_def Let_def stopWebcamStream_fields
      switchCamera_resume_def getWebcamStream_settled_def remove_at_def)

theorem failed_switch_leaves_no_camera_witness:
  "imageInput (projr (main_init (CameraStream 640 480))) = None \<and>
   pending_switches (projr (main_init (CameraStream 640 480))) = [] \<and>
   100 - lastTapTime (projr (main_init (CameraStream 640 480))) < DOUBLE_TAP_MS \<and>
   live_streams (projr (main_init (CameraStream 640 480))) \<subseteq>
     set_option (srcObject (videoInput (projr (main_init (CameraStream 640 480))))) \<and>
   (\<exists>s'. run [TouchEnd 100, CameraSettled 0 CameraDenied] (projr (main_init (CameraStream 640 480))) = Some s' \<and>
     live_streams s' = {})"
proof -
  have h: "imageInput (projr (main_init (CameraStream 640 480))) = None \<and>
   pending_switches (projr (main_init (CameraStream 640 480))) = [] \<and>
   100 - lastTapTime (projr (main_init (CameraStream 640 480))) < DOUBLE_TAP_MS \<and>
   live_streams (projr (main_init (CameraStream 640 480))) \<subseteq>
     set_option (srcObject (videoInput (projr (main_init (CameraStream 640 480)))))"
    by (simp add: main_init_simps
        DOUBLE_TAP_MS_def split: play_kind.split)
  then show ?thesis
    using failed_switch_leaves_no_camera [of "projr (main_init (CameraStream 640 480))" 100] by blast
qed

lemma exportHighRes_inputs:
  "pending_loads (exportHighRes s) = pending_loads s \<and> imageInput (exportHighRes s) = imageInput s"
  by (simp add: exportHighRes_def split: prod.split)
text \<open>
  C24. An image dropped during an export: its \<open>onload\<close> calls \<open>play()\<close>, which
  restarts the display loop while the export's 8 ms timer is still pending and the
  export canvas is in the document, where the spec promises that the display loop stays
  paused for the whole export sequence.
\<close>

theorem image_during_export_resumes_display:
  assumes "pending_loads s = []" "starts_with (file_type f) ''image/''" "file_image f = Some img"
  shows "\<exists>s'. run [ShutterClick, Drop [f], ImageDecoded 0] s = Some s' \<and>
     0 < pending_timers s' \<and> canvas_attached (exportCanvas s') \<and> playing (displayShader s') \<and>
     on_frame (displayShader s') = NoCallback \<and> imageInput s' = Some img"
  using assms image_loaded_Some [of "handleImageFile f (exportHighRes s)" 0 img]
    image_loaded_frame [of 0 "handleImageFile f (exportHighRes s)"]
  by (simp add: on_shutter_click_def handleImageDrop_def handleImageFile_def
      exportHighRes_fields exportHighRes_inputs)
theorem image_during_export_resumes_display_witness:
  "pending_loads (projr (main_init (CameraStream 640 480))) = [] \<and>
   starts_with (file_type \<lparr>file_type = ''image/png'', file_image = Some \<lparr>naturalWidth = 100, naturalHeight = 80\<rparr>\<rparr>) ''image/'' \<and>
   (\<exists>s'. run [ShutterClick, Drop [\<lparr>file_type = ''image/png'', file_image = Some \<lparr>naturalWidth = 100, naturalHeight = 80\<rparr>\<rparr>], ImageDecoded 0]
      (projr (main_init (CameraStream 640 480))) = Some s' \<and>
      0 < pending_timers s' \<and> playing (displayShader s'))"
proof -
  have p: "pending_loads (projr (main_init (CameraStream 640 480))) = []"
    by (simp add: main_init_simps split: play_kind.split)
  have f: "starts_with (file_type \<lparr>file_type = ''image/png'', file_image = Some \<lparr>naturalWidth = 100, naturalHeight = 80\<rparr>\<rparr>) ''image/''"
    by (simp add: starts_with_def)
  from image_during_export_resumes_display [OF p f] show ?thesis using p f by auto
qed

section \<open>The export renderer and the parameters\<close>

lemma exportShader_frame:
  "exportShader (push_nStrips s) = exportShader s"
  "exportShader (push_nShuffles s) = exportShader s"
  "exportShader (key_params k s) = exportShader s"
  "exportShader (on_swipe d x s) = exportShader s"
  "exportShader (on_touchend t s) = exportShader s"
  "exportShader (handleImageDrop fs s) = exportShader s"
  "exportShader (image_loaded i s) = exportShader s"
  "exportShader (switchCamera_resume i r s) = exportShader s"
  "exportShader (export_timer_fired s) = exportShader s"
  "exportShader (export_save_settled i ok s) = exportShader s"
  "exportShader (display_frame s) = exportShader s"
  by (simp_all add: push_nStrips_def push_nShuffles_def key_params_def on_swipe_def Let_def
      swipe_params_def on_touchend_def switchCamera_start_def stopWebcamStream_def
      handleImageDrop_def handleImageFile_def image_loaded_def removeVideoInput_def run_play_def
      switchCamera_resume_def getWebcamStream_settled_def export_timer_fired_def
      export_save_settled_def display_frame_def
      split: option.split list.split camera_result.split play_kind.split frame_callback.split)

lemma on_keydown_exportShader:
  "key \<noteq> ''s'' \<Longrightarrow> exportShader (on_keydown key s) = exportShader s"
  by (simp add: on_keydown_def exportShader_frame)

text \<open>
  C21. The export renderer is synchronised lazily: after any event it is exactly what
  it was before, except after an export request (the shutter or the \<open>s\<close> key), which
  sets its two uniforms to the current parameters and its texture to the current input
  (\<open>imageInput ?? videoInput\<close>) and changes nothing else of it.
\<close>

theorem export_renderer_lazy_sync:
  assumes "step e s = Some s'"
  shows "exportShader s' =
    (if e = ShutterClick \<or> e = KeyDown ''s''
     then (exportShader s)\<lparr>u_nShuffles := nShuffles s, u_nStrips := nStrips s,
                           u_inputStream := current_source s\<rparr>
     else exportShader s)"
proof (cases e)
  case (KeyDown key)
  show ?thesis
  proof (cases "key = ''s''")
    case True
    with KeyDown assms have "s' = exportHighRes s" by (simp add: on_keydown_def)
    with KeyDown True show ?thesis by (simp add: exportHighRes_def sp_set_texture_def split: prod.split)
  next
    case False
    with KeyDown assms have "s' = on_keydown key s" by simp
    with KeyDown False show ?thesis by (simp add: on_keydown_exportShader)
  qed
next
  case ShutterClick
  with assms have "s' = exportHighRes s" by (simp add: on_shutter_click_def)
  with ShutterClick show ?thesis by (simp add: exportHighRes_def sp_set_texture_def split: prod.split)
qed (use assms in \<open>auto simp: exportShader_frame split: if_splits\<close>)

theorem export_renderer_lazy_sync_witness:
  "step ShutterClick (projr (main_init (CameraStream 640 480))) =
     Some (exportHighRes (projr (main_init (CameraStream 640 480)))) \<and>
   u_nStrips (exportShader (exportHighRes (projr (main_init (CameraStream 640 480))))) = 32 \<and>
   u_inputStream (exportShader (exportHighRes (projr (main_init (CameraStream 640 480))))) = VideoSource 0"
proof -
  have h: "step ShutterClick (projr (main_init (CameraStream 640 480))) =
     Some (exportHighRes (projr (main_init (CameraStream 640 480))))"
    by (simp add: on_shutter_click_def)
  have v: "nStrips (projr (main_init (CameraStream 640 480))) = 32 \<and>
     current_source (projr (main_init (CameraStream 640 480))) = VideoSource 0"
    by (simp add: main_init_simps init_params_def current_source_def split: play_kind.split)
  from export_renderer_lazy_sync [OF h] h v show ?thesis by simp
qed

lemma param_inputs_Cons: "param_inputs (e # es) = param_inputs [e] @ param_inputs es"
  by (cases e) simp_all

lemma step_params:
  assumes "step e s = Some s'"
  shows "nStrips s' = nStrips (run_params (param_inputs [e]) s) \<and>
         nShuffles s' = nShuffles (run_params (param_inputs [e]) s)"
  using assms
  by (cases e) (auto simp: on_keydown_params on_swipe_params on_touchend_params
      on_shutter_click_def frame_simps split: if_splits)

text \<open>
  C22. The whole program refines the Parameter State: after any run of events, the
  session's \<open>nStrips\<close> and \<open>nShuffles\<close> are those \<open>run_params\<close> computes from the
  run's keys and swipes alone; no other event (exports, taps, drops, camera replies,
  frames) changes a parameter.
\<close>

theorem session_refines_params:
  "run es s = Some s' \<Longrightarrow>
   nStrips s' = nStrips (run_params (param_inputs es) s) \<and>
   nShuffles s' = nShuffles (run_params (param_inputs es) s)"
proof (induction es arbitrary: s)
  case Nil
  then show ?case by simp
next
  case (Cons e es)
  then obtain s1 where s1: "step e s = Some s1" and rest: "run es s1 = Some s'"
    by (auto split: option.splits)
  from Cons.IH [OF rest] step_params [OF s1] run_params_cong [of s1 "run_params (param_inputs [e]) s"]
  show ?case by (simp add: param_inputs_Cons [of e es] run_params_append)
qed


theorem session_refines_params_witness:
  "run [KeyDown ''ArrowUp'', DisplayFrame] (projr (main_init (CameraStream 640 480))) =
     Some (display_frame (on_keydown ''ArrowUp'' (projr (main_init (CameraStream 640 480))))) \<and>
   nStrips (display_frame (on_keydown ''ArrowUp'' (projr (main_init (CameraStream 640 480))))) = 33"
proof -
  have h: "run [KeyDown ''ArrowUp'', DisplayFrame] (projr (main_init (CameraStream 640 480))) =
     Some (display_frame (on_keydown ''ArrowUp'' (projr (main_init (CameraStream 640 480)))))"
    by (simp add: main_init_simps
        shader_defs on_keydown_def push_nStrips_def key_params_def)
  have "nStrips (run_params (param_inputs [KeyDown ''ArrowUp'', DisplayFrame])
          (projr (main_init (CameraStream 640 480)))) = 33"
    by (simp add: main_init_simps
        key_params_def init_params_def param_bound_defs)
  with session_refines_params [OF h] h show ?thesis by simp
qed

end
