(* ===== verification/ExportMachine.thy ===== *)
theory ExportMachine
  imports Session
begin

text \<open>
  The Export Orchestrator against the spec's state machine (section 4.5: Idle,
  Preparing, Rendering, Idle).  \<open>export_phase\<close> reads the phase off the session: a
  pending save is Rendering, a pending 8 ms timer is Preparing, neither is Idle.
  \<open>spec_export_trans\<close> is the spec's machine; \<open>run_phases\<close> lists the phases a run
  of the whole program goes through and \<open>spec_path\<close> says that each change of phase
  is a transition of the machine.  The spec has no transition for an export request
  outside Idle: \<open>guarded_run\<close> is the condition that every request (shutter click or
  key \<open>'s'\<close>) arrives in Idle, and \<open>single_export\<close> that at most one export is under
  way.  Under that condition every run refines the machine (C27) and every started
  export can complete (C28); without it two exports overlap (C10 in Session).
\<close>

text \<open>The three states of the export machine of the spec.\<close>

datatype export_phase = Idle | Preparing | Rendering

definition export_phase :: "session \<Rightarrow> export_phase" where
  "export_phase s =
     (if pending_saves s \<noteq> [] then Rendering
      else if 0 < pending_timers s then Preparing else Idle)"

inductive spec_export_trans :: "export_phase \<Rightarrow> export_phase \<Rightarrow> bool" where
  request: "spec_export_trans Idle Preparing"
| yield_render: "spec_export_trans Preparing Rendering"
| saved: "spec_export_trans Rendering Idle"

definition export_request :: "event \<Rightarrow> bool" where
  "export_request e \<longleftrightarrow> e = ShutterClick \<or> e = KeyDown ''s''"

definition single_export :: "session \<Rightarrow> bool" where
  "single_export s \<longleftrightarrow> pending_timers s + length (pending_saves s) \<le> 1"

fun guarded_run :: "event list \<Rightarrow> session \<Rightarrow> bool" where
  "guarded_run [] s = True"
| "guarded_run (e # es) s =
     ((export_request e \<longrightarrow> export_phase s = Idle) \<and>
      (case step e s of None \<Rightarrow> True | Some s' \<Rightarrow> guarded_run es s'))"

fun run_phases :: "event list \<Rightarrow> session \<Rightarrow> export_phase list" where
  "run_phases [] s = []"
| "run_phases (e # es) s =
     (case step e s of None \<Rightarrow> [] | Some s' \<Rightarrow> export_phase s' # run_phases es s')"

fun spec_path :: "export_phase list \<Rightarrow> bool" where
  "spec_path (a # b # ps) = ((a = b \<or> spec_export_trans a b) \<and> spec_path (b # ps))"
| "spec_path _ = True"

inductive_simps spec_export_trans_simps: "spec_export_trans a b"

lemma step_export_queues:
  assumes "step e s = Some s'"
  shows "(pending_timers s', length (pending_saves s')) =
    (if export_request e then (Suc (pending_timers s), length (pending_saves s))
     else if e = ExportTimer then (pending_timers s - 1, Suc (length (pending_saves s)))
     else if (\<exists>i ok. e = SaveSettled i ok) then (pending_timers s, length (pending_saves s) - 1)
     else (pending_timers s, length (pending_saves s)))"
  using assms
proof (cases e)
  case (KeyDown key)
  then show ?thesis using assms
    by (auto simp: export_request_def on_keydown_def push_nStrips_def push_nShuffles_def
        key_params_def exportHighRes_fields split: if_splits)
next
  case ShutterClick
  then show ?thesis using assms by (auto simp: export_request_def on_shutter_click_def exportHighRes_fields)
next
  case (Swipe d diff)
  then show ?thesis using assms
    by (auto simp: export_request_def on_swipe_def Let_def push_nStrips_def push_nShuffles_def
        swipe_params_def split: if_splits)
next
  case (TouchEnd t)
  then show ?thesis using assms
    by (auto simp: export_request_def on_touchend_def switchCamera_start_def Let_def
        stopWebcamStream_def split: if_splits option.splits)
next
  case (Drop fs)
  then show ?thesis using assms
    by (auto simp: export_request_def handleImageDrop_def handleImageFile_def
        split: list.splits if_splits)
next
  case (ImageDecoded i)
  then show ?thesis using assms
    by (auto simp: export_request_def image_loaded_def Let_def run_play_def removeVideoInput_def
        stopWebcamStream_def shader_defs split: option.splits if_splits)
next
  case (CameraSettled i r)
  then show ?thesis using assms
    by (auto simp: export_request_def switchCamera_resume_def Let_def getWebcamStream_settled_def
        split: camera_result.splits if_splits prod.splits)
next
  case ExportTimer
  then show ?thesis using assms
    by (auto simp: export_request_def export_timer_fired_def Let_def split: if_splits)
next
  case (SaveSettled i ok)
  then show ?thesis using assms
    by (auto simp: export_request_def export_save_settled_def Let_def run_play_def length_remove_at
        split: if_splits)
next
  case DisplayFrame
  then show ?thesis using assms
    by (auto simp: export_request_def display_frame_def split: frame_callback.splits if_splits)
qed

lemma step_ExportTimer_guard: "step ExportTimer s = Some s' \<Longrightarrow> 0 < pending_timers s"
  by (simp split: if_splits)

lemma step_SaveSettled_guard: "step (SaveSettled i ok) s = Some s' \<Longrightarrow> pending_saves s \<noteq> []"
  by (auto split: if_splits)

lemma export_phase_len:
  "export_phase s = (if 0 < length (pending_saves s) then Rendering
                     else if 0 < pending_timers s then Preparing else Idle)"
  by (simp add: export_phase_def)

lemma step_export_phase:
  assumes "single_export s" "step e s = Some s'" "export_request e \<longrightarrow> export_phase s = Idle"
  shows "single_export s' \<and>
    (export_phase s' = export_phase s \<or> spec_export_trans (export_phase s) (export_phase s'))"
proof -
  note q = step_export_queues [OF assms(2)]
  have sx: "pending_timers s + length (pending_saves s) \<le> 1"
    using assms(1) by (simp add: single_export_def)
  consider (req) "export_request e" | (timer) "e = ExportTimer"
    | (save) i ok where "e = SaveSettled i ok" | (other) "\<not> export_request e" "e \<noteq> ExportTimer"
        "\<forall>i ok. e \<noteq> SaveSettled i ok"
    by blast
  then show ?thesis
  proof cases
    case req
    then have "pending_timers s' = Suc (pending_timers s)" "length (pending_saves s') = length (pending_saves s)"
      "export_phase s = Idle"
      using q assms(3) by simp_all
    then show ?thesis
      by (simp add: export_phase_len single_export_def spec_export_trans.simps split: if_splits)
  next
    case timer
    then have "pending_timers s' = pending_timers s - 1" "length (pending_saves s') = Suc (length (pending_saves s))"
      "0 < pending_timers s"
      using q step_ExportTimer_guard [of s s'] assms(2) by (simp_all add: export_request_def)
    moreover from this(3) sx have "length (pending_saves s) = 0" "pending_timers s = 1" by arith+
    ultimately show ?thesis
      by (simp add: export_phase_len single_export_def spec_export_trans.simps)
  next
    case save
    then have "pending_timers s' = pending_timers s" "length (pending_saves s') = length (pending_saves s) - 1"
      "0 < length (pending_saves s)"
      using q step_SaveSettled_guard [of i ok s s'] assms(2) by (simp_all add: export_request_def)
    moreover from this(3) sx have "length (pending_saves s) = 1" "pending_timers s = 0" by arith+
    ultimately show ?thesis
      by (simp add: export_phase_len single_export_def spec_export_trans.simps)
  next
    case other
    then have "pending_timers s' = pending_timers s" "length (pending_saves s') = length (pending_saves s)"
      using q by auto
    then show ?thesis using sx by (simp add: export_phase_len single_export_def)
  qed
qed

text \<open>
  C27. From a state with at most one export under way, every run whose export
  requests all arrive in Idle changes phase only along the spec's machine
  (Idle to Preparing on a request, Preparing to Rendering when the timer fires,
  Rendering to Idle when the save settles, whether it succeeds or fails), and keeps
  at most one export under way.
\<close>

theorem export_machine_refinement:
  assumes "single_export s" "guarded_run es s"
  shows "spec_path (export_phase s # run_phases es s) \<and>
         (\<forall>s'. run es s = Some s' \<longrightarrow> single_export s')"
  using assms
proof (induction es arbitrary: s)
  case Nil
  then show ?case by simp
next
  case (Cons e es)
  show ?case
  proof (cases "step e s")
    case None
    then show ?thesis by simp
  next
    case (Some s1)
    have g: "export_request e \<longrightarrow> export_phase s = Idle" "guarded_run es s1"
      using Cons.prems(2) Some by simp_all
    from step_export_phase [OF Cons.prems(1) Some g(1)]
    have one: "single_export s1"
      and t: "export_phase s1 = export_phase s \<or> spec_export_trans (export_phase s) (export_phase s1)"
      by blast+
    from Cons.IH [OF one g(2)]
    have p: "spec_path (export_phase s1 # run_phases es s1)"
      and r: "\<forall>s'. run es s1 = Some s' \<longrightarrow> single_export s'" by blast+
    from t p r Some show ?thesis by auto
  qed
qed

theorem export_machine_refinement_witness:
  "single_export (projr (main_init (CameraStream 640 480))) \<and>
   guarded_run [ShutterClick, KeyDown ''ArrowUp'', ExportTimer, SaveSettled 0 True]
     (projr (main_init (CameraStream 640 480))) \<and>
   run_phases [ShutterClick, KeyDown ''ArrowUp'', ExportTimer, SaveSettled 0 True]
     (projr (main_init (CameraStream 640 480))) = [Preparing, Preparing, Rendering, Idle] \<and>
   spec_path (Idle # [Preparing, Preparing, Rendering, Idle])"
proof -
  define s0 where "s0 = projr (main_init (CameraStream 640 480))"
  have q0: "pending_timers s0 = 0" "pending_saves s0 = []"
    by (simp_all add: s0_def main_init_simps split: play_kind.split)
  have one: "single_export s0" using q0 by (simp add: single_export_def)
  have i0: "export_phase s0 = Idle" using q0 by (simp add: export_phase_def)
  have g: "guarded_run [ShutterClick, KeyDown ''ArrowUp'', ExportTimer, SaveSettled 0 True] s0"
    using q0 by (simp add: export_request_def export_phase_def on_shutter_click_def exportHighRes_fields
        on_keydown_def push_nStrips_def key_params_def export_timer_fired_def Let_def)
  have ph: "run_phases [ShutterClick, KeyDown ''ArrowUp'', ExportTimer, SaveSettled 0 True] s0 =
      [Preparing, Preparing, Rendering, Idle]"
    using q0 by (simp add: export_phase_def on_shutter_click_def exportHighRes_fields
        on_keydown_def push_nStrips_def key_params_def export_timer_fired_def Let_def
        export_save_settled_def run_play_def remove_at_def)
  from export_machine_refinement [OF one g] i0 ph one g show ?thesis
    unfolding s0_def [symmetric] by simp
qed
text \<open>
  C28. An export under way always completes: from Preparing the timer and then the
  save, from Rendering the save, are enabled and lead back to Idle.
\<close>

theorem export_completes:
  assumes "single_export s" "export_phase s \<noteq> Idle"
  shows "\<exists>s'. run (if export_phase s = Preparing then [ExportTimer, SaveSettled 0 ok]
                   else [SaveSettled 0 ok]) s = Some s' \<and> export_phase s' = Idle"
proof -
  have sx: "pending_timers s + length (pending_saves s) \<le> 1"
    using assms(1) by (simp add: single_export_def)
  have save: "\<exists>s'. step (SaveSettled 0 ok) s1 = Some s' \<and> export_phase s' = Idle"
    if "pending_timers s1 = 0" "length (pending_saves s1) = 1" for s1
  proof -
    have st: "step (SaveSettled 0 ok) s1 = Some (export_save_settled 0 ok s1)"
      using that by simp
    from step_export_queues [OF st] that
    have "pending_timers (export_save_settled 0 ok s1) = 0"
      "length (pending_saves (export_save_settled 0 ok s1)) = 0"
      by (simp_all add: export_request_def)
    with st show ?thesis by (simp add: export_phase_def)
  qed
  show ?thesis
  proof (cases "export_phase s = Preparing")
    case True
    then have q: "pending_timers s = 1" "length (pending_saves s) = 0"
      using sx by (auto simp: export_phase_len split: if_splits)
    then have st: "step ExportTimer s = Some (export_timer_fired s)" by simp
    from step_export_queues [OF st] q
    have "pending_timers (export_timer_fired s) = 0" "length (pending_saves (export_timer_fired s)) = 1"
      by (simp_all add: export_request_def)
    from save [OF this] st True show ?thesis by auto
  next
    case False
    with assms(2) have "0 < length (pending_saves s)"
      by (auto simp: export_phase_len split: if_splits)
    with sx have q: "pending_timers s = 0" "length (pending_saves s) = 1" by arith+
    from save [OF q] False show ?thesis by (auto split: option.splits)
  qed
qed

theorem export_completes_witness:
  "single_export (on_shutter_click (projr (main_init (CameraStream 640 480)))) \<and>
   export_phase (on_shutter_click (projr (main_init (CameraStream 640 480)))) = Preparing \<and>
   (\<exists>s'. run [ExportTimer, SaveSettled 0 False] (on_shutter_click (projr (main_init (CameraStream 640 480))))
      = Some s' \<and> export_phase s' = Idle)"
proof -
  define s0 where "s0 = projr (main_init (CameraStream 640 480))"
  have q0: "pending_timers s0 = 0" "pending_saves s0 = []"
    by (simp_all add: s0_def main_init_simps split: play_kind.split)
  have one: "single_export (on_shutter_click s0)" and p: "export_phase (on_shutter_click s0) = Preparing"
    using q0 by (simp_all add: single_export_def export_phase_def on_shutter_click_def exportHighRes_fields)
  from export_completes [OF one, of False] p one show ?thesis
    unfolding s0_def [symmetric] by simp
qed
end
