(* ===== verification/Spec2Isabelle.thy ===== *)
theory Spec2Isabelle
  imports ExportMachine
begin

text \<open>
  \<^bold>\<open>A verification development of pixelquilt (src/src/main.js).\<close>

  pixelquilt is a single-page program.  \<open>main()\<close> in src/src/main.js acquires a webcam
  stream, creates two ShaderPad renderers (one on screen, one on an off-screen export
  canvas) and wires DOM events to closures over shared mutable state
  (\<open>currentFacingMode\<close>, \<open>videoInput\<close>, \<open>imageInput\<close>, \<open>nStrips\<close>, \<open>nShuffles\<close>,
  \<open>lastTapTime\<close>, \<open>play\<close>).  src/vite.config.js is build configuration with no run-time
  behaviour.  The handlers interact only through that shared state and through the two
  renderers; three of them suspend (\<open>switchCamera\<close> at its \<open>await\<close>, \<open>handleImageFile\<close>
  until the picture has decoded, \<open>exportHighRes\<close> at its 8 ms timer and at its
  \<open>await save\<close>), so other handlers can run in between.

  \<^bold>\<open>Theories.\<close>
  \<^item> \<open>Prelude\<close>: JavaScript numbers as \<open>real\<close>; the ECMAScript meaning of \<open>Math.min\<close>,
    \<open>Math.max\<close>, \<open>Math.sign\<close> (\<open>sgn\<close>), \<open>Math.round\<close> (\<open>js_round\<close>, ties up),
    \<open>startsWith\<close> (\<open>starts_with\<close>) and of the WebIDL \<open>unsigned long\<close> conversion of
    canvas sizes (\<open>to_unsigned_long\<close>, a \<open>32 word\<close>); lemmas on clamping, rounding,
    ratios and integrality; the collections \<open>js_simps\<close>, \<open>grid_intros\<close>,
    \<open>frame_simps\<close>.
  \<^item> \<open>Params\<close> (Parameter State, lines 5--8, 40--41, 151--188): record \<open>params\<close>,
    \<open>key_params\<close> (arrow keys), \<open>swipe_params\<close> (swipe callback), \<open>run_params\<close>; the
    bound invariant \<open>params_ok\<close>, the grid invariant \<open>params_grid\<close>, and the spec's
    abstract semantics (\<open>clamp\<close>, \<open>adjust\<close>, \<open>spec_step\<close>) with the refinement
    \<open>params_refine_clamp_spec\<close>.
  \<^item> \<open>Browser\<close>: the environment, not code of the repository: images and video
    elements (DOM sizes are \<open>nat\<close>), camera streams by number, the canvas, dropped
    files, and the observable state of a ShaderPad renderer with the calls main.js
    makes (\<open>sp_initialize\<close>, \<open>sp_play\<close>, \<open>sp_pause\<close>, \<open>sp_set_texture\<close>, \<open>sp_step\<close>,
    \<open>resize_canvas\<close>).
  \<^item> \<open>AppState\<close>: record \<open>session\<close>, the closure state of \<open>main()\<close> (extending
    \<open>params\<close>) plus the environment it changes: live streams, video elements in the
    document, the queues of pending continuations, what was saved, console and
    uncaught errors; \<open>run_play\<close> is a call of \<open>play()\<close> (lines 71, 200--204).
  \<^item> \<open>Export\<close> (Export Orchestrator, lines 93--128): \<open>export_size\<close> (lines 95--115),
    \<open>exportHighRes\<close> (synchronous part), \<open>export_timer_fired\<close> (the 8 ms timer up to
    \<open>await save\<close>), \<open>export_save_settled\<close> (the rest, or the uncaught rejection).
  \<^item> \<open>Input\<close> (Input Source Manager, lines 11--31, 49--78, 130--149):
    \<open>getWebcamStream_settled\<close>, \<open>stopWebcamStream\<close>, \<open>removeVideoInput\<close>,
    \<open>handleImageDrop\<close>, \<open>handleImageFile\<close>, \<open>image_loaded\<close> (the two \<open>onload\<close>
    callbacks), \<open>switchCamera_start\<close> and \<open>switchCamera_resume\<close> (split at the
    \<open>await\<close>).
  \<^item> \<open>Router\<close> (Gesture/Input Router, lines 151--198): \<open>on_keydown\<close>,
    \<open>on_shutter_click\<close>, \<open>on_swipe\<close>, \<open>on_touchend\<close>, with the uniform pushes
    \<open>push_nStrips\<close>, \<open>push_nShuffles\<close>.
  \<^item> \<open>Session\<close> (Render Session Adapter and the whole program): \<open>main_init\<close>
    (startup and first \<open>play()\<close>), \<open>init_renderers\<close> (lines 83--91, the two
    renderers and their uniforms), \<open>display_frame\<close> (the
    per-frame callback), \<open>event\<close> (DOM events and resumptions of pending continuations,
    each resumption naming which pending one settles, so every interleaving is a list of
    events), \<open>step\<close> (\<open>None\<close> for a resumption that is not pending), \<open>run\<close>, and
    \<open>reachable\<close>, an inductive predicate over the states of all runs.
  \<^item> \<open>ExportMachine\<close>: the spec's export machine (\<open>spec_export_trans\<close> over Idle,
    Preparing, Rendering), the abstraction \<open>export_phase\<close> of a session (a pending save
    is Rendering, a pending timer Preparing), \<open>run_phases\<close>, \<open>spec_path\<close>, and the
    condition \<open>guarded_run\<close> that export requests arrive only in Idle.

  \<^bold>\<open>What is proved.\<close>
  \<^item> Invariants of every reachable state, by rule induction on \<open>reachable\<close> with one
    preservation lemma per handler (\<open>session_inv\<close>): parameters in bounds and on their
    grid (C1), display uniforms equal to the parameters (C6), canvas sizes at most 4096
    as 32-bit words (C7).
  \<^item> Refinements: the code's one-sided clamps implement the spec's \<open>clamp\<close> (C2); the
    whole program's parameters are those of the Params model on the run's keys and
    swipes (C22); the export renderer is changed only by export requests, which set
    exactly its uniforms and texture (C21).
  \<^item> The export size: bounds (C3), the clamped branch (C4) and the unclamped one (C5),
    with the spec's two worked examples as witnesses; the export sequence's success path
    (C8), its uncaught failure path (C9), and every export from a reachable state
    (C23, below); the orchestrator refines the spec's three-state machine on every run
    whose requests arrive in Idle (C27, from the per-event lemma
    \<open>step_export_phase\<close>), and every export under way completes (C28).
  \<^item> The router: the double-tap condition (C11), the swipe reset (C12), still images
    ignoring the toggle (C15); the image drop filter (C16) and the image load (C17).
  \<^item> Findings, each a theorem over every state meeting its hypotheses: two overlapping
    exports end in an uncaught
    \<open>NotFoundError\<close> (C10); a negative swipe does not reset the tap timer (C13); taps
    exactly 300 ms apart do not toggle (C14); a camera switch resuming while an image
    is the input starts a live camera and puts it on screen (C18); two pending switches
    that both succeed leave the first new stream orphaned (C19); a denied switch leaves
    no camera (C20); an image decoded during an export restarts the display loop
    before the export has rendered (C24); a leaked stream stays live whatever events
    follow (C25, by induction on the run with the per-event lemma
    \<open>step_keeps_orphan\<close>); at a fractional shuffle depth the export canvas truncates
    the scaled size (C26, with \<open>100 * 2 ^ 2.5\<close> giving 565).
  \<^item> A failed first camera request makes \<open>main\<close> reject before it installs any handler
    (\<open>main_init\<close> returns \<open>Inl CameraAccessError\<close>), where the spec says the session
    continues; this is one branch of \<open>main_init\<close> and is recorded as a finding only.

  \<^bold>\<open>Bounds and choices.\<close>  No loop of main.js is unbounded (the render loop is the
  external renderer's and appears as the \<open>DisplayFrame\<close> event), so there is no fuel.
  Time stamps are whatever \<open>Date.now()\<close> returns: the tap theorems state the times they
  need.  \<open>Math.pow(2, nShuffles + 1)\<close> is the exact \<open>powr\<close>; the doubles main.js
  computes stay far below the range where rounding would change a comparison, and the
  one division by zero the code can reach (a zero-height input wider than 4096 after
  scaling) gives in HOL the value ECMAScript gives (\<open>4096 / Infinity = 0\<close>).

  \<^bold>\<open>Not modelled.\<close>  The fragment shader and \<open>./handleTouch\<close> are not among the
  sources (the swipe callback's contract is taken from the spec); ShaderPad's WebGL
  pipeline, the camera hardware, the file reader and the image decoder are external and
  appear only through what main.js observes of them; CSS classes other than
  \<open>flipped\<close> and \<open>ready\<close> and the \<open>dragover\<close> handler (\<open>preventDefault\<close> only) have no
  modelled effect.

  \<^bold>\<open>Plan for the next sittings.\<close>  A reachable-state invariant relating \<open>live_streams\<close>,
  \<open>body_videos\<close> and \<open>videoInput\<close>; the display renderer's texture after every
  event (which source the screen shows).
\<close>

section \<open>Properties that span the components\<close>

text \<open>
  C23. From any reachable state with no save pending, an export whose save succeeds
  leads to a reachable state and saves exactly one picture, whose canvas is at most
  4096 pixels on each side and which was drawn with \<open>nStrips\<close> in \<open>[1, 1920]\<close> and
  \<open>nShuffles\<close> in \<open>[1, 32]\<close>; the display loop runs again afterwards.
\<close>

theorem export_from_reachable:
  assumes "reachable s" "pending_saves s = []"
  shows "\<exists>s' f. run [ShutterClick, ExportTimer, SaveSettled 0 True] s = Some s' \<and> reachable s' \<and>
     saved s' = saved s @ [(''pixelquilt'', Some f)] \<and> playing (displayShader s') \<and>
     unat (frame_width f) \<le> 4096 \<and> unat (frame_height f) \<le> 4096 \<and>
     MIN_N_STRIPS \<le> frame_nStrips f \<and> frame_nStrips f \<le> MAX_N_STRIPS \<and>
     MIN_N_SHUFFLES \<le> frame_nShuffles f \<and> frame_nShuffles f \<le> MAX_N_SHUFFLES"
proof -
  from export_sequence_success [OF assms(2)] obtain s' where
    r: "run [ShutterClick, ExportTimer, SaveSettled 0 True] s = Some s'" and
    p: "playing (displayShader s')" and
    sv: "saved s' = saved s @
       [(''pixelquilt'', Some
          \<lparr>frame_width = to_unsigned_long (fst (export_size (nShuffles s) (fst (native_size s)) (snd (native_size s)))),
           frame_height = to_unsigned_long (snd (export_size (nShuffles s) (fst (native_size s)) (snd (native_size s)))),
           frame_nShuffles = nShuffles s, frame_nStrips = nStrips s,
           frame_source = current_source s\<rparr>)]"
    by blast
  have "reachable s'" using reachable_run [OF assms(1) r] .
  moreover have "params_ok s" using reachable_params_ok [OF assms(1)] by simp
  ultimately show ?thesis
    using r p sv export_frame_size_bounded [of s] by (auto simp: params_ok_def)
qed

theorem export_from_reachable_witness:
  "reachable (projr (main_init (CameraStream 1920 1080))) \<and>
   pending_saves (projr (main_init (CameraStream 1920 1080))) = [] \<and>
   (\<exists>s' f. run [ShutterClick, ExportTimer, SaveSettled 0 True] (projr (main_init (CameraStream 1920 1080))) = Some s' \<and>
      unat (frame_width f) \<le> 4096 \<and> saved s' = [(''pixelquilt'', Some f)])"
proof -
  have r: "reachable (projr (main_init (CameraStream 1920 1080)))" by (rule reachable_main)
  have p: "pending_saves (projr (main_init (CameraStream 1920 1080))) = []" using main_init_pending by blast
  have e: "saved (projr (main_init (CameraStream 1920 1080))) = []"
    by (simp add: main_init_simps
        split: play_kind.split)
  from export_from_reachable [OF r p] obtain s' f where
    "run [ShutterClick, ExportTimer, SaveSettled 0 True] (projr (main_init (CameraStream 1920 1080))) = Some s'"
    "unat (frame_width f) \<le> 4096"
    "saved s' = saved (projr (main_init (CameraStream 1920 1080))) @ [(''pixelquilt'', Some f)]"
    by blast
  with e r p show ?thesis by auto
qed

lemma on_swipe_inputs:
  "imageInput (on_swipe direction diff s) = imageInput s \<and>
   videoInput (on_swipe direction diff s) = videoInput s"
  by (simp add: on_swipe_def Let_def push_nStrips_def push_nShuffles_def swipe_params_def)

lemma on_swipe_x:
  "nShuffles (on_swipe ''x'' diff s) = max MIN_N_SHUFFLES (min MAX_N_SHUFFLES (nShuffles s + sgn diff / 8)) \<and>
   native_size (on_swipe direction diff s) = native_size s"
proof -
  have v: "videoInput (on_swipe direction diff s) = videoInput s"
    using on_swipe_inputs by blast
  have i: "imageInput (on_swipe direction diff s) = imageInput s"
    using on_swipe_inputs by blast
  show ?thesis unfolding native_size_def v i
    by (simp add: on_swipe_params swipe_params_def)
qed

text \<open>
  C26. A horizontal swipe moves the shuffle depth by 1/8, so the export scale
  \<open>2 ^ (nShuffles + 1)\<close> need not be whole.  When no side exceeds 4096 the export
  canvas gets the truncated size (the \<open>unsigned long\<close> conversion of the canvas
  \<open>width\<close> and \<open>height\<close> setters), not the nearest integer the clamped branch uses:
  a 100 by 100 input at depth 1.5 (four swipes from startup) gives a canvas 565 pixels
  wide, where \<open>100 * 2 ^ 2.5 = 565.69\<dots>\<close>.
\<close>

theorem export_canvas_truncates:
  assumes "fst (native_size s) * 2 powr (nShuffles s + 1) \<le> 4096"
    and "snd (native_size s) * 2 powr (nShuffles s + 1) \<le> 4096"
  shows "unat (canvas_width (exportCanvas (exportHighRes s))) =
           nat \<lfloor>fst (native_size s) * 2 powr (nShuffles s + 1)\<rfloor> \<and>
         unat (canvas_height (exportCanvas (exportHighRes s))) =
           nat \<lfloor>snd (native_size s) * 2 powr (nShuffles s + 1)\<rfloor>"
proof -
  let ?W = "fst (native_size s) * 2 powr (nShuffles s + 1)"
  let ?H = "snd (native_size s) * 2 powr (nShuffles s + 1)"
  have sz: "export_size (nShuffles s) (fst (native_size s)) (snd (native_size s)) = (?W, ?H)"
    using assms by (simp add: export_size_cases MAX_EXPORT_DIMENSION_def)
  have "0 \<le> ?W" "0 \<le> ?H" using native_size_nonneg [of s] by simp_all
  with assms have "unat (to_unsigned_long ?W) = nat \<lfloor>?W\<rfloor>" "unat (to_unsigned_long ?H) = nat \<lfloor>?H\<rfloor>"
    by (simp_all add: unat_to_unsigned_long)
  with sz show ?thesis by (simp add: exportHighRes_def resize_canvas_def)
qed

theorem export_canvas_truncates_witness:
  "nShuffles (the (run [Swipe ''x'' 20, Swipe ''x'' 20, Swipe ''x'' 20, Swipe ''x'' 20]
      (projr (main_init (CameraStream 100 100))))) = 3 / 2 \<and>
   fst (native_size (the (run [Swipe ''x'' 20, Swipe ''x'' 20, Swipe ''x'' 20, Swipe ''x'' 20]
      (projr (main_init (CameraStream 100 100)))))) * 2 powr (3 / 2 + 1) \<le> 4096 \<and>
   unat (canvas_width (exportCanvas (exportHighRes (the (run [Swipe ''x'' 20, Swipe ''x'' 20,
      Swipe ''x'' 20, Swipe ''x'' 20] (projr (main_init (CameraStream 100 100)))))))) = 565"
proof -
  define s0 where "s0 = projr (main_init (CameraStream 100 100))"
  have k0: "nShuffles s0 = 1" and n0: "native_size s0 = (100, 100)"
    by (simp_all add: s0_def main_init_simps init_params_def param_bound_defs native_size_def)
  have r: "the (run [Swipe ''x'' 20, Swipe ''x'' 20, Swipe ''x'' 20, Swipe ''x'' 20] s0) =
      on_swipe ''x'' 20 (on_swipe ''x'' 20 (on_swipe ''x'' 20 (on_swipe ''x'' 20 s0)))"
    by simp
  have k: "nShuffles (on_swipe ''x'' 20 (on_swipe ''x'' 20 (on_swipe ''x'' 20 (on_swipe ''x'' 20 s0)))) = 3 / 2"
    by (simp add: on_swipe_x k0 param_bound_defs)
  have n: "native_size (on_swipe ''x'' 20 (on_swipe ''x'' 20 (on_swipe ''x'' 20 (on_swipe ''x'' 20 s0)))) = (100, 100)"
    by (simp add: on_swipe_x n0)
  have p: "(2::real) powr (3 / 2 + 1) = 4 * sqrt 2"
    using two_powr_five_halves by simp
  have b: "400 * sqrt (2::real) \<le> 4096"
    using floor_400_sqrt2 by linarith
  from export_canvas_truncates [of "on_swipe ''x'' 20 (on_swipe ''x'' 20 (on_swipe ''x'' 20 (on_swipe ''x'' 20 s0)))"]
    k n p b floor_400_sqrt2
  show ?thesis unfolding s0_def [symmetric] r by simp
qed
end
